theory Spec2Isabelle
  imports Complex_Main
begin

section \<open>JavaScript strings and arrays\<close>

text \<open>
  Strings are \<^typ>\<open>string\<close> (character lists); a character stands for a code unit below
  256. The JavaScript built-ins used by the two source files are written out on them.
  Code units from 256 on, and case conversion outside A-Z / a-z, are outside the model.
\<close>

text \<open>\<^verbatim>\<open>Array.prototype.join\<close>: elements separated by \<open>sep\<close>, nothing after the last.\<close>

fun join :: "string \<Rightarrow> string list \<Rightarrow> string" where
  "join sep [] = ''''"
| "join sep [x] = x"
| "join sep (x # y # ys) = x @ sep @ join sep (y # ys)"

text \<open>\<^verbatim>\<open>String.prototype.split\<close> with a one-character separator.\<close>

fun split_char :: "char \<Rightarrow> string \<Rightarrow> string list" where
  "split_char c [] = [[]]"
| "split_char c (x # xs) =
     (if x = c then [] # split_char c xs
      else (case split_char c xs of
              [] \<Rightarrow> [[x]]
            | y # ys \<Rightarrow> (x # y) # ys))"

text \<open>
  The white space and line terminators that \<^verbatim>\<open>trim\<close> and \<^verbatim>\<open>trimStart\<close> strip, among the
  code units below 256: tab, line feed, vertical tab, form feed, carriage return, space
  and the no-break space U+00A0.
\<close>

definition is_space :: "char \<Rightarrow> bool" where
  "is_space c =
     (c = CHR '' '' \<or> c = CHR 0x09 \<or> c = CHR ''\<newline>'' \<or> c = CHR 0x0B \<or> c = CHR 0x0C
      \<or> c = CHR 0x0D \<or> c = CHR 0xA0)"

definition trimStart :: "string \<Rightarrow> string" where
  "trimStart s = dropWhile is_space s"

definition trim :: "string \<Rightarrow> string" where
  "trim s = rev (dropWhile is_space (rev (dropWhile is_space s)))"

definition startsWith :: "string \<Rightarrow> string \<Rightarrow> bool" where
  "startsWith s p = (take (length p) s = p)"

text \<open>\<^verbatim>\<open>Array.prototype.slice(a, b)\<close> for non-negative bounds.\<close>

definition slice :: "nat \<Rightarrow> nat \<Rightarrow> 'a list \<Rightarrow> 'a list" where
  "slice a b xs = take (b - a) (drop a xs)"

definition toLowerCase :: "string \<Rightarrow> string" where
  "toLowerCase s =
     map (\<lambda>c. let n = (of_char c :: nat) in if 65 \<le> n \<and> n \<le> 90 then char_of (n + 32) else c) s"

definition toUpperCase :: "string \<Rightarrow> string" where
  "toUpperCase s =
     map (\<lambda>c. let n = (of_char c :: nat) in if 97 \<le> n \<and> n \<le> 122 then char_of (n - 32) else c) s"

text \<open>
  \<^verbatim>\<open>Math.round\<close> on a finite number: the nearest integer, halves going up. Finite
  doubles are rationals and the rounding is exact on them, so numbers are \<^typ>\<open>rat\<close>.
\<close>

definition Math_round :: "rat \<Rightarrow> rat" where
  "Math_round x = of_int \<lfloor>x + 1 / 2\<rfloor>"


section \<open>The scene graph\<close>

datatype NodeType =
  RECTANGLE | ELLIPSE | GROUP | FRAME | TEXT | VECTOR | INSTANCE | COMPONENT | LINE | SLICE

datatype TextCase = ORIGINAL | UPPER | LOWER | TITLE

datatype LayoutMode = NONE | HORIZONTAL | VERTICAL

text \<open>\<^verbatim>\<open>counterAxisAlignItems\<close>: "MIN", "MAX", "CENTER", "BASELINE".\<close>

datatype AlignItems = Align_MIN | Align_MAX | Align_CENTER | Align_BASELINE

datatype Sizing = FIXED | HUG | FILL

datatype PaintType =
  SOLID | GRADIENT_LINEAR | GRADIENT_RADIAL | GRADIENT_ANGULAR | GRADIENT_DIAMOND | IMAGE | VIDEO

record Paint =
  ptype :: PaintType
  pvisible :: bool
  popacity :: rat
  pcolor :: "rat \<times> rat \<times> rat"

text \<open>A paint list, or the host's \<^verbatim>\<open>figma.mixed\<close> sentinel.\<close>

datatype PaintArray = Mixed | Paints "Paint list"

text \<open>The layout fields \<^verbatim>\<open>createDirectionalStack\<close> reads, of a frame or of its inferred layout.\<close>

record inferredAutoLayoutResult =
  layoutMode :: LayoutMode
  counterAxisAlignItems :: AlignItems
  itemSpacing :: rat

text \<open>
  The fields of a node that the two files read. \<open>has_layoutAlign\<close> and \<open>has_opacity\<close>
  stand for the run-time probes \<^verbatim>\<open>"layoutAlign" in node\<close> and \<^verbatim>\<open>"opacity" in node\<close>;
  \<open>ownLayout\<close> holds the node's own layout fields, \<open>inferredAutoLayout\<close> is
  \<open>None\<close> for \<^verbatim>\<open>null\<close>.
\<close>

record node_props =
  ntype :: NodeType
  name :: string
  visible :: bool
  has_layoutAlign :: bool
  has_opacity :: bool
  width :: rat
  height :: rat
  characters :: string
  textCase :: TextCase
  ownLayout :: inferredAutoLayoutResult
  inferredAutoLayout :: "inferredAutoLayoutResult option"
  layoutSizingHorizontal :: Sizing
  layoutSizingVertical :: Sizing
  fills :: PaintArray
  strokes :: PaintArray
  dashPattern :: "rat list"

datatype SceneNode = SceneNode (props: node_props) (children: "SceneNode list")

datatype GenerationMode = Snippet | Struct | Preview | Unrecognized

record PluginSettings =
  swiftUIGenerationMode :: GenerationMode
  optimizeLayout :: bool

datatype js_error = TypeError

text \<open>What \<^verbatim>\<open>commonStroke\<close> returns: one weight for all edges, or one per edge.\<close>

datatype BorderSide = All rat | Sides rat rat rat rat

text \<open>
  The functions of the repository that the two files import and that are not part of the
  sources at hand. They are parameters of the model: every theorem holds for any choice
  of them unless it says otherwise. \<open>swiftuiDefaultBuilder kind node opt n\<close> is the whole
  modifier chain of \<^verbatim>\<open>new SwiftuiDefaultBuilder(kind)\<close> up to \<^verbatim>\<open>build(n)\<close>, and
  \<open>swiftuiTextBuilder node opt\<close> the one of \<^verbatim>\<open>new SwiftuiTextBuilder()\<close>; the second
  argument of \<open>indentString\<close> is \<open>None\<close> where the call leaves the level to its default.
\<close>

record env =
  indentString :: "string \<Rightarrow> nat option \<Rightarrow> string"
  sliceNum :: "rat \<Rightarrow> string"
  className :: "string \<Rightarrow> string"
  swiftuiDefaultBuilder :: "string \<Rightarrow> SceneNode \<Rightarrow> bool \<Rightarrow> int \<Rightarrow> string"
  swiftuiTextBuilder :: "SceneNode \<Rightarrow> bool \<Rightarrow> string"
  formatWithJSX :: "string \<Rightarrow> bool \<Rightarrow> string \<Rightarrow> string"
  htmlColorFromFills :: "PaintArray \<Rightarrow> string"
  htmlGradientFromFills :: "PaintArray \<Rightarrow> string"
  htmlBorderRadius :: "SceneNode \<Rightarrow> bool \<Rightarrow> string list"
  commonStroke :: "SceneNode \<Rightarrow> BorderSide option"


section \<open>swiftuiMain.ts\<close>

definition getStructTemplate :: "env \<Rightarrow> string \<Rightarrow> string \<Rightarrow> string" where
  "getStructTemplate E nm injectCode =
     ''struct '' @ nm @ '': View {\<newline>  var body: some View {\<newline>    ''
     @ trimStart (indentString E injectCode (Some 4)) @ '';\<newline>  }\<newline>}''"

definition getPreviewTemplate :: "env \<Rightarrow> string \<Rightarrow> string \<Rightarrow> string" where
  "getPreviewTemplate E nm injectCode =
     ''import SwiftUI\<newline>\<newline>struct ContentView: View {\<newline>  var body: some View {\<newline>    ''
     @ trimStart (indentString E injectCode (Some 4))
     @ '';\<newline>  }\<newline>}\<newline>\<newline>struct ContentView_Previews: PreviewProvider {\<newline>''
     @ ''  static var previews: some View {\<newline>    ContentView()\<newline>  }\<newline>}''"

definition swiftuiContainer ::
  "env \<Rightarrow> PluginSettings \<Rightarrow> SceneNode \<Rightarrow> nat \<Rightarrow> string \<Rightarrow> string" where
  "swiftuiContainer E S node indentLevel stack =
     (if \<not> has_layoutAlign (props node) \<or> \<not> has_opacity (props node) then ''''
      else if width (props node) \<le> 0 \<or> height (props node) \<le> 0 then stack
      else
        let kind = (if ntype (props node) = RECTANGLE then ''Rectangle()''
                    else if ntype (props node) = ELLIPSE then ''Ellipse()''
                    else stack);
            result = swiftuiDefaultBuilder E kind node (optimizeLayout S)
                       (if kind = stack then - 2 else 0)
        in indentString E result (Some indentLevel))"

definition swiftuiText :: "env \<Rightarrow> PluginSettings \<Rightarrow> SceneNode \<Rightarrow> nat \<Rightarrow> string" where
  "swiftuiText E S node indentLevel =
     (let text0 = characters (props node);
          text1 = (if textCase (props node) = LOWER then toLowerCase text0
                   else if textCase (props node) = UPPER then toUpperCase text0
                   else text0);
          splittedChars = split_char CHR ''\<newline>'' text1;
          charsWithLineBreak =
            (if length splittedChars > 1 then join [CHR 0x5C, CHR ''n''] splittedChars
             else text1);
          modifier = swiftuiTextBuilder E node (optimizeLayout S);
          result = ''\<newline>Text('' @ [CHR 0x22] @ charsWithLineBreak @ [CHR 0x22] @ '')''
                   @ modifier
      in indentString E result (Some indentLevel))"

definition getLayoutAlignment :: "inferredAutoLayoutResult \<Rightarrow> string" where
  "getLayoutAlignment inferred =
     (case counterAxisAlignItems inferred of
        Align_MIN \<Rightarrow> (if layoutMode inferred = VERTICAL then ''.leading'' else ''.top'')
      | Align_MAX \<Rightarrow> (if layoutMode inferred = VERTICAL then ''.trailing'' else ''.bottom'')
      | Align_BASELINE \<Rightarrow> ''.firstTextBaseline''
      | Align_CENTER \<Rightarrow> '''')"

definition getSpacing :: "inferredAutoLayoutResult \<Rightarrow> rat" where
  "getSpacing inferred =
     (let defaultSpacing = 16 in
      if Math_round (itemSpacing inferred) \<noteq> defaultSpacing then itemSpacing inferred
      else defaultSpacing)"

datatype PropValue = PStr string | PNum rat

definition generateSwiftViewCode ::
  "env \<Rightarrow> string \<Rightarrow> (string \<times> PropValue) list \<Rightarrow> string \<Rightarrow> string" where
  "generateSwiftViewCode E cls properties childrenStr =
     (let propertiesArray =
            map (\<lambda>(key, v). key @ '': '' @ (case v of PNum n \<Rightarrow> sliceNum E n | PStr s \<Rightarrow> s))
              (filter (\<lambda>(key, v). v \<noteq> PStr '''') properties);
          compactPropertiesArray = join '', '' propertiesArray
      in if length compactPropertiesArray > 60
         then cls @ ''(\<newline>'' @ join '',\<newline>'' propertiesArray @ ''\<newline>) {''
              @ childrenStr @ ''\<newline>}''
         else cls @ ''('' @ compactPropertiesArray @ '') {\<newline>''
              @ indentString E childrenStr None @ ''\<newline>}'')"

definition createDirectionalStack ::
  "env \<Rightarrow> string \<Rightarrow> inferredAutoLayoutResult \<Rightarrow> string" where
  "createDirectionalStack E childrenStr inferred =
     (if layoutMode inferred \<noteq> NONE
      then generateSwiftViewCode E
             (if layoutMode inferred = HORIZONTAL then ''HStack'' else ''VStack'')
             [(''alignment'', PStr (getLayoutAlignment inferred)),
              (''spacing'', PNum (getSpacing inferred))]
             childrenStr
      else generateSwiftViewCode E ''ZStack'' [] childrenStr)"

definition limitWarning :: string where
  "limitWarning =
     ''\<newline>// SwiftUI has a 10 item limit in Stacks. By grouping them, it can grow even more. ''
     @ ''\<newline>// It seems, however, that you have more than 100 items at the same level. Wow!''
     @ ''\<newline>// This is not yet supported; Limiting to the first 100 items...''"

text \<open>
  The arguments of the six functions below as one sum type, and the three components of
  the lexicographic measure under which every call of theirs descends: the size of the
  subtrees at hand, a rank that orders the functions working on the same subtrees, and
  the distance of the chunk loop from its bound.
\<close>

type_synonym walk_args =
  "((env \<times> PluginSettings \<times> SceneNode list \<times> nat)
    + (env \<times> PluginSettings \<times> nat \<times> nat \<times> SceneNode list \<times> nat \<times> string)
    + (env \<times> PluginSettings \<times> SceneNode \<times> nat))
   + (env \<times> PluginSettings \<times> SceneNode \<times> nat)
   + (env \<times> PluginSettings \<times> SceneNode \<times> nat)
   + (env \<times> PluginSettings \<times> SceneNode list \<times> nat \<times> nat \<times> nat \<times> string)"

fun walk_size :: "walk_args \<Rightarrow> nat" where
  "walk_size (Inl (Inl (E, S, nodes, k))) = size_list size nodes"
| "walk_size (Inl (Inr (Inl (E, S, n, k, nodes, i, c)))) = size_list size nodes"
| "walk_size (Inl (Inr (Inr (E, S, node, k)))) = size node"
| "walk_size (Inr (Inl (E, S, node, k))) = size node"
| "walk_size (Inr (Inr (Inl (E, S, node, k)))) = size node"
| "walk_size (Inr (Inr (Inr (E, S, nodes, k, i, j, c)))) = size_list size nodes + 1"

fun walk_rank :: "walk_args \<Rightarrow> nat" where
  "walk_rank (Inl (Inl _)) = 1"
| "walk_rank (Inl (Inr (Inl _))) = 0"
| "walk_rank (Inl (Inr (Inr _))) = 3"
| "walk_rank (Inr (Inl _)) = 3"
| "walk_rank (Inr (Inr (Inl _))) = 2"
| "walk_rank (Inr (Inr (Inr _))) = 1"

fun walk_dist :: "walk_args \<Rightarrow> nat" where
  "walk_dist (Inr (Inr (Inr (E, S, nodes, k, i, j, c)))) = j - i"
| "walk_dist _ = 0"

text \<open>
  The walker and the container renderers call each other along the tree.
  \<open>forEachNode\<close> is the body of the \<^verbatim>\<open>forEach\<close> of \<^verbatim>\<open>swiftuiWidgetGenerator\<close> (the rest
  of the visible nodes, the index of the next one, and \<^verbatim>\<open>comp\<close> so far, as \<open>compS\<close>); \<open>chunkLoop\<close> is
  the \<^verbatim>\<open>for\<close> loop of \<^verbatim>\<open>widgetGeneratorWithLimits\<close> (\<open>i\<close>, \<open>j\<close> and \<^verbatim>\<open>strBuilder\<close> so far).
  The module variable \<^verbatim>\<open>localSettings\<close>, assigned once by \<^verbatim>\<open>swiftuiMain\<close>, is the
  argument \<open>S\<close>.
\<close>

function
  swiftuiWidgetGenerator :: "env \<Rightarrow> PluginSettings \<Rightarrow> SceneNode list \<Rightarrow> nat \<Rightarrow> string" and
  forEachNode ::
    "env \<Rightarrow> PluginSettings \<Rightarrow> nat \<Rightarrow> nat \<Rightarrow> SceneNode list \<Rightarrow> nat \<Rightarrow> string \<Rightarrow> string" and
  swiftuiGroup :: "env \<Rightarrow> PluginSettings \<Rightarrow> SceneNode \<Rightarrow> nat \<Rightarrow> string" and
  swiftuiFrame :: "env \<Rightarrow> PluginSettings \<Rightarrow> SceneNode \<Rightarrow> nat \<Rightarrow> string" and
  widgetGeneratorWithLimits :: "env \<Rightarrow> PluginSettings \<Rightarrow> SceneNode \<Rightarrow> nat \<Rightarrow> string" and
  chunkLoop ::
    "env \<Rightarrow> PluginSettings \<Rightarrow> SceneNode list \<Rightarrow> nat \<Rightarrow> nat \<Rightarrow> nat \<Rightarrow> string \<Rightarrow> string"
where
  "swiftuiWidgetGenerator E S sceneNode indentLevel =
     forEachNode E S (length (filter (\<lambda>d. visible (props d)) sceneNode)) indentLevel
       (filter (\<lambda>d. visible (props d)) sceneNode) 0 ''''"
| "forEachNode E S sceneLen indentLevel [] index compS = compS"
| "forEachNode E S sceneLen indentLevel (node # rest) index compS =
     forEachNode E S sceneLen indentLevel rest (index + 1)
       ((compS @
         (if ntype (props node) = RECTANGLE \<or> ntype (props node) = ELLIPSE
          then swiftuiContainer E S node indentLevel ''''
          else if ntype (props node) = GROUP then swiftuiGroup E S node indentLevel
          else if ntype (props node) = FRAME then swiftuiFrame E S node indentLevel
          else if ntype (props node) = TEXT then swiftuiText E S node indentLevel
          else ''''))
        @ (if int index < int sceneLen - 1 then ''\<newline>'' else ''''))"
| "swiftuiGroup E S node indentLevel =
     swiftuiContainer E S node indentLevel
       (''\<newline>ZStack {'' @ widgetGeneratorWithLimits E S node indentLevel @ ''\<newline>}'')"
| "swiftuiFrame E S node indentLevel =
     swiftuiContainer E S node indentLevel
       (createDirectionalStack E
          (widgetGeneratorWithLimits E S node
             (if length (children node) > 1 then indentLevel + 1 else indentLevel))
          (if optimizeLayout S \<and> inferredAutoLayout (props node) \<noteq> None
           then the (inferredAutoLayout (props node))
           else ownLayout (props node)))"
| "widgetGeneratorWithLimits E S node indentLevel =
     (if length (children node) < 10
      then swiftuiWidgetGenerator E S (children node) indentLevel
      else chunkLoop E S (slice 0 100 (children node)) indentLevel
             0 (length (slice 0 100 (children node)))
             (if length (children node) > 100 then limitWarning else ''''))"
| "chunkLoop E S slicedChildren indentLevel i j strBuilder =
     (if i < j
      then chunkLoop E S slicedChildren indentLevel (i + 10) j
             (strBuilder @ ''\<newline>Group {''
              @ swiftuiWidgetGenerator E S (slice i (i + 10) slicedChildren) indentLevel
              @ ''\<newline>}'')
      else strBuilder)"
  by pat_completeness auto

termination
proof (relation "measures [walk_size, walk_rank, walk_dist]", goal_cases)
  have filter_le: "size_list f (filter P xs) \<le> size_list f xs"
    for f :: "SceneNode \<Rightarrow> nat" and P xs
    by (induction xs) auto
  have drop_le: "size_list f (drop n xs) \<le> size_list f xs"
    for f :: "SceneNode \<Rightarrow> nat" and n xs
    by (induction xs arbitrary: n) (auto simp: drop_Cons le_SucI trans_le_add2 split: nat.splits)
  have take_le: "size_list f (take n xs) \<le> size_list f xs"
    for f :: "SceneNode \<Rightarrow> nat" and n xs
    by (induction xs arbitrary: n) (auto simp: take_Cons split: nat.splits)
  have slice_le: "size_list f (slice a b xs) \<le> size_list f xs"
    for f :: "SceneNode \<Rightarrow> nat" and a b xs
    unfolding slice_def by (rule order_trans [OF take_le drop_le])
  have node_size: "size node = Suc (size_list size (children node))" for node :: SceneNode
    by (cases node) simp
  {
    case 1
    show ?case by simp
  next
    case (2 E S sceneNode indentLevel)
    show ?case
      using filter_le [of size "\<lambda>d. visible (props d)" sceneNode] by auto
  next
    case 3
    show ?case by simp
  next
    case 4
    show ?case by simp
  next
    case 5
    show ?case by simp
  next
    case 6
    show ?case by simp
  next
    case 7
    show ?case by simp
  next
    case (8 E S node indentLevel)
    show ?case by (simp add: node_size)
  next
    case (9 E S node indentLevel)
    show ?case
      using slice_le [of size 0 100 "children node"] by (auto simp: node_size)
  next
    case (10 E S slicedChildren indentLevel i j strBuilder)
    show ?case
      using slice_le [of size i "i + 10" slicedChildren] by auto
  next
    case (11 E S slicedChildren indentLevel i j strBuilder)
    then show ?case by auto
  }
qed


declare chunkLoop.simps [simp del]
declare widgetGeneratorWithLimits.simps [simp del]
declare swiftuiWidgetGenerator.simps [simp del]
declare swiftuiGroup.simps [simp del]
declare swiftuiFrame.simps [simp del]

text \<open>
  \<^verbatim>\<open>swiftuiMain\<close>. Reading \<^verbatim>\<open>sceneNode[0].name\<close> of an empty array throws a
  \<^verbatim>\<open>TypeError\<close>, the one error of the function. \<open>Unrecognized\<close> is any mode that is none
  of the three cases of the \<^verbatim>\<open>switch\<close>: only then does control reach the code after it.
\<close>

definition swiftuiMain :: "env \<Rightarrow> SceneNode list \<Rightarrow> PluginSettings \<Rightarrow> js_error + string" where
  "swiftuiMain E sceneNode settings =
     (let result = swiftuiWidgetGenerator E settings sceneNode 0 in
      case swiftUIGenerationMode settings of
        Snippet \<Rightarrow> Inr result
      | Struct \<Rightarrow>
          (case sceneNode of
             [] \<Rightarrow> Inl TypeError
           | n # _ \<Rightarrow> Inr (getStructTemplate E (className E (name (props n))) result))
      | Preview \<Rightarrow>
          (case sceneNode of
             [] \<Rightarrow> Inl TypeError
           | n # _ \<Rightarrow> Inr (getPreviewTemplate E (className E (name (props n))) result))
      | Unrecognized \<Rightarrow>
          Inr (if length result > 0 \<and> startsWith result ''\<newline>''
               then slice 1 (length result) result
               else result))"


section \<open>htmlDefaultBuilder.ts\<close>

text \<open>
  The builder object: the declarations accumulated so far and the fields its constructor
  sets (\<open>bvisible\<close>, \<open>bnode\<close> and \<open>bname\<close> are \<^verbatim>\<open>this.visible\<close>, \<^verbatim>\<open>this.node\<close> and
  \<^verbatim>\<open>this.name\<close>). A method that mutates the builder and returns \<^verbatim>\<open>this\<close> takes the
  builder and returns the new one.
\<close>

record HtmlDefaultBuilder =
  styles :: "string list"
  isJSX :: bool
  bvisible :: bool
  bnode :: SceneNode
  bname :: string

definition newHtmlDefaultBuilder :: "env \<Rightarrow> SceneNode \<Rightarrow> bool \<Rightarrow> bool \<Rightarrow> HtmlDefaultBuilder" where
  "newHtmlDefaultBuilder E node showLayerName optIsJSX =
     \<lparr>styles = [], isJSX = optIsJSX, bvisible = visible (props node), bnode = node,
      bname = (if showLayerName then className E (name (props node)) else '''')\<rparr>"

text \<open>\<^verbatim>\<open>addStyles\<close> pushes the truthy, that is the non-empty, strings.\<close>

definition addStyles :: "HtmlDefaultBuilder \<Rightarrow> string list \<Rightarrow> HtmlDefaultBuilder" where
  "addStyles b newStyles = b\<lparr>styles := styles b @ filter (\<lambda>style. style \<noteq> '''') newStyles\<rparr>"

definition consolidateBorders :: "env \<Rightarrow> string \<Rightarrow> string \<Rightarrow> rat \<Rightarrow> string" where
  "consolidateBorders E color borderStyle border =
     join '' '' (filter (\<lambda>d. d \<noteq> '''') [sliceNum E border @ ''px'', color, borderStyle])"

definition border :: "env \<Rightarrow> HtmlDefaultBuilder \<Rightarrow> SceneNode \<Rightarrow> HtmlDefaultBuilder" where
  "border E b node =
     (let b0 = addStyles b (htmlBorderRadius E node (isJSX b)) in
      case commonStroke E node of
        None \<Rightarrow> b0
      | Some commonBorder \<Rightarrow>
          let color = htmlColorFromFills E (strokes (props node));
              borderStyle = (if length (dashPattern (props node)) > 0 then ''dotted'' else ''solid'')
          in case commonBorder of
               All weight \<Rightarrow>
                 if weight = 0 then b0
                 else addStyles b0
                        [formatWithJSX E ''border'' (isJSX b)
                           (consolidateBorders E color borderStyle weight)]
             | Sides leftW topW rightW bottomW \<Rightarrow>
                 let b1 = (if leftW \<noteq> 0
                           then addStyles b0
                                  [formatWithJSX E ''border-left'' (isJSX b)
                                     (consolidateBorders E color borderStyle leftW)]
                           else b0);
                     b2 = (if topW \<noteq> 0
                           then addStyles b1
                                  [formatWithJSX E ''border-top'' (isJSX b)
                                     (consolidateBorders E color borderStyle topW)]
                           else b1);
                     b3 = (if rightW \<noteq> 0
                           then addStyles b2
                                  [formatWithJSX E ''border-right'' (isJSX b)
                                     (consolidateBorders E color borderStyle rightW)]
                           else b2)
                 in if bottomW \<noteq> 0
                    then addStyles b3
                           [formatWithJSX E ''border-bottom'' (isJSX b)
                              (consolidateBorders E color borderStyle bottomW)]
                    else b3)"

definition buildBackgroundValues :: "env \<Rightarrow> PaintArray \<Rightarrow> string" where
  "buildBackgroundValues E paintArray =
     (case paintArray of
        Mixed \<Rightarrow> ''''
      | Paints ps \<Rightarrow>
          if length ps = 1 \<and> ptype (ps ! 0) = SOLID then htmlColorFromFills E paintArray
          else
            join '', ''
              (filter (\<lambda>v. v \<noteq> '''')
                 (map (\<lambda>paint.
                         if ptype paint = SOLID
                         then (let color = htmlColorFromFills E (Paints [paint])
                               in ''linear-gradient(0deg, '' @ color @ '' 0%, '' @ color
                                  @ '' 100%)'')
                         else if ptype paint = GRADIENT_LINEAR \<or> ptype paint = GRADIENT_RADIAL
                                 \<or> ptype paint = GRADIENT_ANGULAR
                         then htmlGradientFromFills E (Paints [paint])
                         else '''')
                    ps)))"

definition applyFillsToStyle ::
  "env \<Rightarrow> HtmlDefaultBuilder \<Rightarrow> PaintArray \<Rightarrow> string \<Rightarrow> HtmlDefaultBuilder" where
  "applyFillsToStyle E b paintArray property =
     (if property = ''text''
      then addStyles b [formatWithJSX E ''text'' (isJSX b) (htmlColorFromFills E paintArray)]
      else
        let backgroundValues = buildBackgroundValues E paintArray
        in if backgroundValues \<noteq> ''''
           then addStyles b [formatWithJSX E ''background'' (isJSX b) backgroundValues]
           else b)"

text \<open>
  \<^verbatim>\<open>build\<close>, from its first line to the value of \<^verbatim>\<open>formattedStyle\<close> at the end of the
  \<^verbatim>\<open>if (this.styles.length > 0)\<close> block. The rest of the method only puts further
  attributes in front of this string. \<open>styleProp s\<close> is \<^verbatim>\<open>s.split(":")[0].trim()\<close>;
  \<^verbatim>\<open>split\<close> never returns an empty array, so the first case is never taken. The file
  holds the class a second time, in a later revision whose \<^verbatim>\<open>build\<close> first replaces the
  \<^verbatim>\<open>background\<close> and \<^verbatim>\<open>color\<close> declarations of a named style; the lines modelled
  here are the same in both.
\<close>

definition styleProp :: "string \<Rightarrow> string" where
  "styleProp s = (case split_char CHR '':'' s of [] \<Rightarrow> '''' | x # _ \<Rightarrow> trim x)"

definition formattedStylesFiltered :: "HtmlDefaultBuilder \<Rightarrow> string list" where
  "formattedStylesFiltered b =
     filter
       (\<lambda>s. if styleProp s = ''width''
             then layoutSizingHorizontal (props (bnode b)) = FIXED
             else if styleProp s = ''height''
             then layoutSizingVertical (props (bnode b)) = FIXED
             else True)
       (map trim (styles b))"

definition build_formattedStyle :: "HtmlDefaultBuilder \<Rightarrow> string list \<Rightarrow> string" where
  "build_formattedStyle b additionalStyle =
     (let b1 = addStyles b additionalStyle in
      if length (styles b1) > 0
      then (if isJSX b1
            then '' style={{'' @ join '', '' (formattedStylesFiltered b1) @ ''}}''
            else '' style='' @ [CHR 0x22] @ join ''; '' (formattedStylesFiltered b1)
                 @ [CHR 0x22])
      else '''')"



section \<open>Notions used in the statements\<close>

text \<open>What one pass of the loop of \<^verbatim>\<open>widgetGeneratorWithLimits\<close> appends for one chunk.\<close>

definition renderGroup :: "env \<Rightarrow> PluginSettings \<Rightarrow> nat \<Rightarrow> SceneNode list \<Rightarrow> string" where
  "renderGroup E S indentLevel chunkChildren =
     ''\<newline>Group {'' @ swiftuiWidgetGenerator E S chunkChildren indentLevel @ ''\<newline>}''"

text \<open>
  What the body of the \<^verbatim>\<open>forEach\<close> of \<^verbatim>\<open>swiftuiWidgetGenerator\<close> appends for one node
  before the separator: the dispatch on the node's kind.
\<close>

definition renderUnit :: "env \<Rightarrow> PluginSettings \<Rightarrow> nat \<Rightarrow> SceneNode \<Rightarrow> string" where
  "renderUnit E S indentLevel node =
     (if ntype (props node) = RECTANGLE \<or> ntype (props node) = ELLIPSE
      then swiftuiContainer E S node indentLevel ''''
      else if ntype (props node) = GROUP then swiftuiGroup E S node indentLevel
      else if ntype (props node) = FRAME then swiftuiFrame E S node indentLevel
      else if ntype (props node) = TEXT then swiftuiText E S node indentLevel
      else '''')"

text \<open>
  The chunking as the specification words it: a list cut into consecutive groups of 10,
  in order, the last one holding what is left.
\<close>

fun chunks10 :: "'a list \<Rightarrow> 'a list list" where
  "chunks10 xs = (if xs = [] then [] else take 10 xs # chunks10 (drop 10 xs))"

declare chunks10.simps [simp del]


text \<open>
  One border declaration as \<^verbatim>\<open>border\<close> builds it: the property, and the weight, the
  stroke colour and the stroke style put together by \<^verbatim>\<open>consolidateBorders\<close>.
\<close>

definition borderDeclaration ::
  "env \<Rightarrow> HtmlDefaultBuilder \<Rightarrow> SceneNode \<Rightarrow> string \<Rightarrow> rat \<Rightarrow> string" where
  "borderDeclaration E b node property weight =
     formatWithJSX E property (isJSX b)
       (consolidateBorders E (htmlColorFromFills E (strokes (props node)))
          (if length (dashPattern (props node)) > 0 then ''dotted'' else ''solid'') weight)"

text \<open>
  The paint composite as the specification words it: the supported paint kinds, and the
  segment of a supported paint, a solid one being a gradient with its colour at both stops.
\<close>

definition supportedPaint :: "Paint \<Rightarrow> bool" where
  "supportedPaint p =
     (ptype p = SOLID \<or> ptype p = GRADIENT_LINEAR \<or> ptype p = GRADIENT_RADIAL
      \<or> ptype p = GRADIENT_ANGULAR)"

definition paintSegment :: "env \<Rightarrow> Paint \<Rightarrow> string" where
  "paintSegment E p =
     (if ptype p = SOLID
      then ''linear-gradient(0deg, '' @ htmlColorFromFills E (Paints [p]) @ '' 0%, ''
           @ htmlColorFromFills E (Paints [p]) @ '' 100%)''
      else htmlGradientFromFills E (Paints [p]))"


section \<open>Sample inputs\<close>

text \<open>
  Stand-ins for the imported functions, for the instances at which the theorems are
  exercised: no indentation, class names unchanged, a default builder that emits the bare
  kind and a text builder that emits no modifier, \<^verbatim>\<open>property: value\<close> declarations, one
  fixed colour and one fixed gradient, no corner radius and no stroke.
\<close>

definition sample_env :: env where
  "sample_env =
     \<lparr>indentString = (\<lambda>s lvl. s),
      sliceNum = (\<lambda>x. if x = 2 then ''2'' else if x = 1 then ''1'' else ''0''),
      className = (\<lambda>s. s),
      swiftuiDefaultBuilder = (\<lambda>kind node opt n. kind),
      swiftuiTextBuilder = (\<lambda>node opt. ''''),
      formatWithJSX = (\<lambda>property isJsx v. property @ '': '' @ v),
      htmlColorFromFills = (\<lambda>paints. ''red''),
      htmlGradientFromFills = (\<lambda>paints. ''linear-gradient(90deg, blue 0%, green 100%)''),
      htmlBorderRadius = (\<lambda>node isJsx. []),
      commonStroke = (\<lambda>node. None)\<rparr>"

definition snippet_settings :: PluginSettings where
  "snippet_settings = \<lparr>swiftUIGenerationMode = Snippet, optimizeLayout = False\<rparr>"

text \<open>A visible 10 by 10 rectangle with one solid fill, and nodes derived from it.\<close>

definition rect_props :: node_props where
  "rect_props =
     \<lparr>ntype = RECTANGLE, name = ''Box'', visible = True, has_layoutAlign = True,
      has_opacity = True, width = 10, height = 10, characters = '''', textCase = ORIGINAL,
      ownLayout = \<lparr>layoutMode = NONE, counterAxisAlignItems = Align_MIN, itemSpacing = 0\<rparr>,
      inferredAutoLayout = None, layoutSizingHorizontal = FIXED, layoutSizingVertical = HUG,
      fills = Paints [\<lparr>ptype = SOLID, pvisible = True, popacity = 1, pcolor = (1, 0, 0)\<rparr>],
      strokes = Paints [], dashPattern = []\<rparr>"

definition sample_rect :: SceneNode where
  "sample_rect = SceneNode rect_props []"

definition sample_hidden :: SceneNode where
  "sample_hidden = SceneNode (rect_props\<lparr>visible := False\<rparr>) []"

definition sample_vector :: SceneNode where
  "sample_vector = SceneNode (rect_props\<lparr>ntype := VECTOR\<rparr>) []"

definition sample_text :: SceneNode where
  "sample_text = SceneNode (rect_props\<lparr>ntype := TEXT, characters := ''Hi''\<rparr>) []"

definition sample_flat_group :: SceneNode where
  "sample_flat_group = SceneNode (rect_props\<lparr>ntype := GROUP, width := 0\<rparr>) []"

definition sample_flat_rect :: SceneNode where
  "sample_flat_rect = SceneNode (rect_props\<lparr>height := 0\<rparr>) []"

definition sample_flat_frame :: SceneNode where
  "sample_flat_frame =
     SceneNode (rect_props\<lparr>ntype := FRAME, height := 0\<rparr>) [sample_rect, sample_rect]"

definition sample_frame :: "nat \<Rightarrow> SceneNode" where
  "sample_frame n = SceneNode (rect_props\<lparr>ntype := FRAME\<rparr>) (replicate n sample_rect)"

definition sample_solid :: Paint where
  "sample_solid = \<lparr>ptype = SOLID, pvisible = True, popacity = 1, pcolor = (1, 0, 0)\<rparr>"

definition sample_gradient :: Paint where
  "sample_gradient = \<lparr>ptype = GRADIENT_LINEAR, pvisible = True, popacity = 1, pcolor = (0, 0, 1)\<rparr>"

definition sample_image :: Paint where
  "sample_image = \<lparr>ptype = IMAGE, pvisible = True, popacity = 1, pcolor = (0, 0, 0)\<rparr>"

text \<open>A builder on the sample rectangle (fixed width, hugging height) with three declarations.\<close>

definition sample_builder :: HtmlDefaultBuilder where
  "sample_builder =
     (newHtmlDefaultBuilder sample_env sample_rect False False)
       \<lparr>styles := [''width: 100px'', ''height: 50px'', ''background: red'']\<rparr>"


section \<open>The walker\<close>

lemma join_Cons_nonempty: "rest \<noteq> [] \<Longrightarrow> join sep (x # rest) = x @ sep @ join sep rest"
  by (cases rest) simp_all

lemma forEachNode_step:
  "forEachNode E S sceneLen k (x # rest) index acc =
   forEachNode E S sceneLen k rest (index + 1)
     (acc @ renderUnit E S k x @ (if int index < int sceneLen - 1 then ''\<newline>'' else []))"
  by (simp add: renderUnit_def)

lemma forEachNode_join:
  "sceneLen = index + length xs \<Longrightarrow>
   forEachNode E S sceneLen k xs index acc = acc @ join ''\<newline>'' (map (renderUnit E S k) xs)"
proof (induction xs arbitrary: index acc)
  case Nil
  then show ?case by simp
next
  case (Cons x rest)
  have len: "sceneLen = (index + 1) + length rest" using Cons.prems by simp
  note IH = Cons.IH [OF len]
  show ?case
  proof (cases "rest = []")
    case True
    then have "\<not> int index < int sceneLen - 1" using Cons.prems by simp
    then show ?thesis
      unfolding forEachNode_step using True by simp
  next
    case False
    then have "int index < int sceneLen - 1" using Cons.prems by (cases rest) simp_all
    moreover have "join ''\<newline>'' (map (renderUnit E S k) (x # rest))
        = renderUnit E S k x @ ''\<newline>'' @ join ''\<newline>'' (map (renderUnit E S k) rest)"
      using False by (simp add: join_Cons_nonempty)
    ultimately show ?thesis
      unfolding forEachNode_step IH by simp
  qed
qed

lemma swiftuiWidgetGenerator_join:
  "swiftuiWidgetGenerator E S nodes k =
   join ''\<newline>'' (map (renderUnit E S k) (filter (\<lambda>d. visible (props d)) nodes))"
  by (simp add: swiftuiWidgetGenerator.simps forEachNode_join)

lemma renderGroup_sample:
  "renderGroup sample_env snippet_settings 0 (replicate n sample_rect) =
   ''\<newline>Group {'' @ join ''\<newline>'' (replicate n ''Rectangle()'') @ ''\<newline>}''"
proof -
  have "renderUnit sample_env snippet_settings 0 sample_rect = ''Rectangle()''"
    by (simp add: renderUnit_def swiftuiContainer_def sample_rect_def rect_props_def
        sample_env_def)
  moreover have "filter (\<lambda>d. visible (props d)) (replicate n sample_rect) = replicate n sample_rect"
    by (simp add: sample_rect_def rect_props_def)
  ultimately show ?thesis
    by (simp add: renderGroup_def swiftuiWidgetGenerator_join)
qed


section \<open>The chunk loop\<close>

lemma chunkLoop_step:
  "i < j \<Longrightarrow>
   chunkLoop E S xs k i j acc =
   chunkLoop E S xs k (i + 10) j (acc @ renderGroup E S k (slice i (i + 10) xs))"
  by (subst chunkLoop.simps) (simp add: renderGroup_def)

lemma chunkLoop_stop: "\<not> i < j \<Longrightarrow> chunkLoop E S xs k i j acc = acc"
  by (subst chunkLoop.simps) simp

lemma chunks10_Nil: "chunks10 [] = []"
  by (simp add: chunks10.simps)

lemma chunks10_nonempty: "xs \<noteq> [] \<Longrightarrow> chunks10 xs = take 10 xs # chunks10 (drop 10 xs)"
  by (subst chunks10.simps) simp

lemma concat_chunks10: "concat (chunks10 xs) = xs"
proof (induction xs rule: chunks10.induct)
  case (1 xs)
  show ?case
  proof (cases "xs = []")
    case True
    then show ?thesis by (simp add: chunks10_Nil)
  next
    case False
    with 1 show ?thesis by (simp add: chunks10_nonempty)
  qed
qed

lemma chunkLoop_chunks10:
  "i \<le> length xs \<Longrightarrow>
   chunkLoop E S xs k i (length xs) acc =
   acc @ concat (map (renderGroup E S k) (chunks10 (drop i xs)))"
proof (induction "length xs - i" arbitrary: i acc rule: less_induct)
  case less
  show ?case
  proof (cases "i < length xs")
    case False
    with less.prems have "drop i xs = []" by simp
    with False show ?thesis by (simp add: chunkLoop_stop chunks10_Nil)
  next
    case True
    then have ne: "drop i xs \<noteq> []" by simp
    have sl: "slice i (i + 10) xs = take 10 (drop i xs)" by (simp add: slice_def)
    show ?thesis
    proof (cases "i + 10 \<le> length xs")
      case le: True
      have "chunkLoop E S xs k (i + 10) (length xs) (acc @ renderGroup E S k (slice i (i + 10) xs))
            = (acc @ renderGroup E S k (slice i (i + 10) xs))
              @ concat (map (renderGroup E S k) (chunks10 (drop (i + 10) xs)))"
        using True le by (intro less.hyps) auto
      then show ?thesis
        using True by (simp add: chunkLoop_step chunks10_nonempty [OF ne] sl add.commute)
    next
      case gt: False
      then have "drop 10 (drop i xs) = []" by simp
      moreover have "\<not> i + 10 < length xs" using gt by simp
      ultimately show ?thesis
        using True by (simp add: chunkLoop_step chunkLoop_stop chunks10_nonempty [OF ne] sl chunks10_Nil)
    qed
  qed
qed

lemma widgetGeneratorWithLimits_chunks:
  assumes "10 \<le> length (children node)"
  shows "widgetGeneratorWithLimits E S node k =
         (if 100 < length (children node) then limitWarning else '''')
         @ concat (map (renderGroup E S k) (chunks10 (take 100 (children node))))"
  using assms chunkLoop_chunks10 [of 0 "take 100 (children node)" E S k]
  by (simp add: widgetGeneratorWithLimits.simps slice_def)

lemma chunks10_25:
  assumes "length xs = 25"
  shows "chunks10 xs = [take 10 xs, take 10 (drop 10 xs), drop 20 xs]"
proof -
  have a: "xs \<noteq> []" "drop 10 xs \<noteq> []" "drop 20 xs \<noteq> []" using assms by auto
  have b: "drop 30 xs = []" "take 10 (drop 20 xs) = drop 20 xs" using assms by auto
  have "chunks10 (drop 20 xs) = [drop 20 xs]"
    by (simp add: chunks10_nonempty [OF a(3)] b chunks10_Nil)
  then have "chunks10 (drop 10 xs) = [take 10 (drop 10 xs), drop 20 xs]"
    by (simp add: chunks10_nonempty [OF a(2)])
  then show ?thesis
    by (simp add: chunks10_nonempty [OF a(1)])
qed

lemma chunks10_full:
  "length xs = 10 * n \<Longrightarrow> chunks10 xs = map (\<lambda>i. take 10 (drop (10 * i) xs)) [0..<n]"
proof (induction n arbitrary: xs)
  case 0
  then show ?case by (simp add: chunks10_Nil)
next
  case (Suc n)
  then have ne: "xs \<noteq> []" by auto
  have len: "length (drop 10 xs) = 10 * n" using Suc.prems by simp
  have "map (\<lambda>i. take 10 (drop (10 * i) xs)) [0..<Suc n]
        = take 10 xs # map (\<lambda>i. take 10 (drop (10 * i) xs)) (map Suc [0..<n])"
    by (simp only: upt_conv_Cons [of 0 "Suc n"] map_Suc_upt [symmetric]) simp
  also have "map (\<lambda>i. take 10 (drop (10 * i) xs)) (map Suc [0..<n])
        = map (\<lambda>i. take 10 (drop (10 * i) (drop 10 xs))) [0..<n]"
    by (simp add: add.commute)
  finally show ?case
    using Suc.IH [OF len] by (simp add: chunks10_nonempty [OF ne])
qed


section \<open>Claims on the chunking\<close>

text \<open>
  C1, the claim as it stands fails: a container with fewer than 10 children is not
  chunked. With 3 children the output is the walker's output on them, without any
  \<^verbatim>\<open>Group { ... }\<close>, and so not the groups of their chunks.
\<close>

theorem C1_few_children_not_grouped:
  "length (children (sample_frame 3)) = 3
   \<and> (\<forall>E S k. widgetGeneratorWithLimits E S (sample_frame 3) k
          = swiftuiWidgetGenerator E S (children (sample_frame 3)) k)
   \<and> (\<forall>E S k. widgetGeneratorWithLimits E S (sample_frame 3) k
          \<noteq> concat (map (renderGroup E S k) (chunks10 (children (sample_frame 3)))))
   \<and> widgetGeneratorWithLimits sample_env snippet_settings (sample_frame 3) 0
       = ''Rectangle()\<newline>Rectangle()\<newline>Rectangle()''"
proof -
  have len: "length (children (sample_frame 3)) = 3" by (simp add: sample_frame_def)
  have ne: "children (sample_frame 3) \<noteq> []" using len by auto
  have eq: "widgetGeneratorWithLimits E S (sample_frame 3) k
            = swiftuiWidgetGenerator E S (children (sample_frame 3)) k" for E S k
    using len by (simp add: widgetGeneratorWithLimits.simps)
  have ch: "chunks10 (children (sample_frame 3)) = [children (sample_frame 3)]"
    using len by (simp add: chunks10_nonempty [OF ne] chunks10_Nil)
  have "length (widgetGeneratorWithLimits E S (sample_frame 3) k)
        \<noteq> length (concat (map (renderGroup E S k) (chunks10 (children (sample_frame 3)))))"
    for E S k
    unfolding eq ch by (simp add: renderGroup_def)
  then have neq: "widgetGeneratorWithLimits E S (sample_frame 3) k
        \<noteq> concat (map (renderGroup E S k) (chunks10 (children (sample_frame 3))))" for E S k
    by metis
  have r: "renderUnit sample_env snippet_settings 0 sample_rect = ''Rectangle()''"
    by (simp add: renderUnit_def swiftuiContainer_def sample_rect_def rect_props_def
        sample_env_def)
  have v: "visible (props sample_rect)" by (simp add: sample_rect_def rect_props_def)
  have "swiftuiWidgetGenerator sample_env snippet_settings (children (sample_frame 3)) 0
        = ''Rectangle()\<newline>Rectangle()\<newline>Rectangle()''"
    by (simp add: sample_frame_def swiftuiWidgetGenerator_join v r eval_nat_numeral)
  then show ?thesis using len eq neq by simp
qed

text \<open>
  C1, amended. A container with fewer than 10 children is not chunked: its output is the
  walker's output on the children. From 10 children on, \<^verbatim>\<open>widgetGeneratorWithLimits\<close>
  emits the first 100 children cut into consecutive groups of 10 in their order, each
  rendered by the walker inside \<^verbatim>\<open>Group { ... }\<close>, after one warning comment exactly when
  there are more than 100. With 25 children these are three groups of 10, 10 and 5
  children and no warning; with 150 children the warning comes once, followed by ten
  groups of 10 that make up the first 100 children.
\<close>

theorem C1_chunks_of_ten:
  "(length (children node) < 10 \<longrightarrow>
      widgetGeneratorWithLimits E S node k = swiftuiWidgetGenerator E S (children node) k)
   \<and> (10 \<le> length (children node) \<longrightarrow>
      widgetGeneratorWithLimits E S node k =
        (if 100 < length (children node) then limitWarning else '''')
        @ concat (map (renderGroup E S k) (chunks10 (take 100 (children node))))
      \<and> concat (chunks10 (take 100 (children node))) = take 100 (children node))
   \<and> (length (children node) = 25 \<longrightarrow>
      widgetGeneratorWithLimits E S node k =
        renderGroup E S k (take 10 (children node))
        @ renderGroup E S k (take 10 (drop 10 (children node)))
        @ renderGroup E S k (drop 20 (children node))
      \<and> map length [take 10 (children node), take 10 (drop 10 (children node)),
                     drop 20 (children node)] = [10, 10, 5]
      \<and> take 10 (children node) @ take 10 (drop 10 (children node)) @ drop 20 (children node)
        = children node)
   \<and> (length (children node) = 150 \<longrightarrow>
      widgetGeneratorWithLimits E S node k =
        limitWarning
        @ concat (map (\<lambda>i. renderGroup E S k (take 10 (drop (10 * i) (children node)))) [0..<10])
      \<and> map (\<lambda>i. length (take 10 (drop (10 * i) (children node)))) [0..<10] = replicate 10 10
      \<and> concat (map (\<lambda>i. take 10 (drop (10 * i) (children node))) [0..<10])
        = take 100 (children node))"
proof (intro conjI impI)
  assume "length (children node) < 10"
  then show "widgetGeneratorWithLimits E S node k
      = swiftuiWidgetGenerator E S (children node) k"
    by (simp add: widgetGeneratorWithLimits.simps)
next
  assume "10 \<le> length (children node)"
  then show "widgetGeneratorWithLimits E S node k =
        (if 100 < length (children node) then limitWarning else '''')
        @ concat (map (renderGroup E S k) (chunks10 (take 100 (children node))))"
    by (rule widgetGeneratorWithLimits_chunks)
next
  show "concat (chunks10 (take 100 (children node))) = take 100 (children node)"
    by (rule concat_chunks10)
next
  assume len: "length (children node) = 25"
  then have t: "take 100 (children node) = children node" by simp
  show "widgetGeneratorWithLimits E S node k =
        renderGroup E S k (take 10 (children node))
        @ renderGroup E S k (take 10 (drop 10 (children node)))
        @ renderGroup E S k (drop 20 (children node))"
    using len widgetGeneratorWithLimits_chunks [of node E S k]
    by (simp add: t chunks10_25 [OF len])
next
  assume len: "length (children node) = 25"
  then show "map length [take 10 (children node), take 10 (drop 10 (children node)),
                     drop 20 (children node)] = [10, 10, 5]"
    by simp
next
  assume len: "length (children node) = 25"
  have "concat (chunks10 (children node)) = children node" by (rule concat_chunks10)
  then show "take 10 (children node) @ take 10 (drop 10 (children node)) @ drop 20 (children node)
        = children node"
    by (simp add: chunks10_25 [OF len])
next
  assume len: "length (children node) = 150"
  have l100: "length (take 100 (children node)) = 10 * 10" using len by simp
  have d: "take 10 (drop (10 * i) (take 100 (children node)))
           = take 10 (drop (10 * i) (children node))" if "i < 10" for i
    using that by (simp add: drop_take)
  have c: "chunks10 (take 100 (children node))
           = map (\<lambda>i. take 10 (drop (10 * i) (children node))) [0..<10]"
    unfolding chunks10_full [OF l100] using d by (intro map_cong) auto
  show "widgetGeneratorWithLimits E S node k =
        limitWarning
        @ concat (map (\<lambda>i. renderGroup E S k (take 10 (drop (10 * i) (children node)))) [0..<10])"
    using len widgetGeneratorWithLimits_chunks [of node E S k]
    by (simp only: c map_map comp_def) simp
  have "concat (chunks10 (take 100 (children node))) = take 100 (children node)"
    by (rule concat_chunks10)
  then show "concat (map (\<lambda>i. take 10 (drop (10 * i) (children node))) [0..<10])
        = take 100 (children node)"
    by (simp only: c)
  show "map (\<lambda>i. length (take 10 (drop (10 * i) (children node)))) [0..<10] = replicate 10 10"
  proof -
    have "length (take 10 (drop (10 * i) (children node))) = 10" if "i < 10" for i
      using that len by simp
    then have "map (\<lambda>i. length (take 10 (drop (10 * i) (children node)))) [0..<10]
               = map (\<lambda>i. 10) [0..<10]"
      by (intro map_cong) auto
    then show ?thesis by (simp add: map_replicate_const)
  qed
qed

text \<open>
  C10. A container with exactly 10 children takes the chunking path: its output is the
  walker's output on the 10 children wrapped in one \<^verbatim>\<open>Group { ... }\<close>, which is never
  what the ungrouped path returns, because the standard path is taken only below 10
  children.
\<close>

theorem C10_ten_children_grouped:
  assumes "length (children node) = 10"
  shows "widgetGeneratorWithLimits E S node indentLevel =
           ''\<newline>Group {'' @ swiftuiWidgetGenerator E S (children node) indentLevel @ ''\<newline>}''
         \<and> widgetGeneratorWithLimits E S node indentLevel
           \<noteq> swiftuiWidgetGenerator E S (children node) indentLevel"
proof -
  have ne: "children node \<noteq> []" using assms by auto
  have "chunks10 (take 100 (children node)) = [children node]"
    using assms by (simp add: chunks10_nonempty [OF ne] chunks10_Nil)
  then have eq: "widgetGeneratorWithLimits E S node indentLevel =
      ''\<newline>Group {'' @ swiftuiWidgetGenerator E S (children node) indentLevel @ ''\<newline>}''"
    using assms widgetGeneratorWithLimits_chunks [of node E S indentLevel]
    by (simp add: renderGroup_def)
  have "length (widgetGeneratorWithLimits E S node indentLevel)
        \<noteq> length (swiftuiWidgetGenerator E S (children node) indentLevel)"
    unfolding eq by simp
  then show ?thesis using eq by auto
qed

theorem C1_chunks_of_ten_witness:
  "length (children (sample_frame 3)) < 10
   \<and> widgetGeneratorWithLimits sample_env snippet_settings (sample_frame 3) 0
       = join ''\<newline>'' (replicate 3 ''Rectangle()'')
   \<and> length (children (sample_frame 25)) = 25
   \<and> widgetGeneratorWithLimits sample_env snippet_settings (sample_frame 25) 0 =
       (''\<newline>Group {'' @ join ''\<newline>'' (replicate 10 ''Rectangle()'') @ ''\<newline>}'')
       @ (''\<newline>Group {'' @ join ''\<newline>'' (replicate 10 ''Rectangle()'') @ ''\<newline>}'')
       @ (''\<newline>Group {'' @ join ''\<newline>'' (replicate 5 ''Rectangle()'') @ ''\<newline>}'')
   \<and> length (children (sample_frame 150)) = 150
   \<and> widgetGeneratorWithLimits sample_env snippet_settings (sample_frame 150) 0 =
       limitWarning
       @ concat (replicate 10
           (''\<newline>Group {'' @ join ''\<newline>'' (replicate 10 ''Rectangle()'') @ ''\<newline>}''))"
proof -
  have a: "widgetGeneratorWithLimits sample_env snippet_settings (sample_frame 25) 0 =
       (''\<newline>Group {'' @ join ''\<newline>'' (replicate 10 ''Rectangle()'') @ ''\<newline>}'')
       @ (''\<newline>Group {'' @ join ''\<newline>'' (replicate 10 ''Rectangle()'') @ ''\<newline>}'')
       @ (''\<newline>Group {'' @ join ''\<newline>'' (replicate 5 ''Rectangle()'') @ ''\<newline>}'')"
    using C1_chunks_of_ten [of "sample_frame 25" sample_env snippet_settings 0,
        THEN conjunct2, THEN conjunct2, THEN conjunct1, THEN mp]
    by (simp add: sample_frame_def renderGroup_sample)
  have "take 10 (drop (10 * i) (replicate 150 sample_rect)) = replicate 10 sample_rect"
    if "i < 10" for i :: nat
    using that by simp
  then have "map (\<lambda>i. renderGroup sample_env snippet_settings 0
                 (take 10 (drop (10 * i) (replicate 150 sample_rect)))) [0..<10]
        = map (\<lambda>i. renderGroup sample_env snippet_settings 0 (replicate 10 sample_rect)) [0..<10]"
    by (intro map_cong) auto
  then have b: "widgetGeneratorWithLimits sample_env snippet_settings (sample_frame 150) 0 =
       limitWarning
       @ concat (replicate 10
           (''\<newline>Group {'' @ join ''\<newline>'' (replicate 10 ''Rectangle()'') @ ''\<newline>}''))"
    using C1_chunks_of_ten [of "sample_frame 150" sample_env snippet_settings 0,
        THEN conjunct2, THEN conjunct2, THEN conjunct2, THEN mp]
    by (simp add: sample_frame_def renderGroup_sample map_replicate_const)
  have "swiftuiWidgetGenerator sample_env snippet_settings (replicate 3 sample_rect) 0
        = join ''\<newline>'' (replicate 3 ''Rectangle()'')"
    using renderGroup_sample [of 3] by (simp add: renderGroup_def)
  then have c: "widgetGeneratorWithLimits sample_env snippet_settings (sample_frame 3) 0
       = join ''\<newline>'' (replicate 3 ''Rectangle()'')"
    using C1_chunks_of_ten [of "sample_frame 3" sample_env snippet_settings 0,
        THEN conjunct1, THEN mp]
    by (simp add: sample_frame_def)
  show ?thesis using a b c by (simp add: sample_frame_def)
qed

theorem C10_ten_children_grouped_witness:
  "length (children (sample_frame 10)) = 10
   \<and> widgetGeneratorWithLimits sample_env snippet_settings (sample_frame 10) 0 =
       ''\<newline>Group {'' @ join ''\<newline>'' (replicate 10 ''Rectangle()'') @ ''\<newline>}''
   \<and> swiftuiWidgetGenerator sample_env snippet_settings (children (sample_frame 10)) 0 =
       join ''\<newline>'' (replicate 10 ''Rectangle()'')"
proof -
  have "swiftuiWidgetGenerator sample_env snippet_settings (replicate 10 sample_rect) 0 =
       join ''\<newline>'' (replicate 10 ''Rectangle()'')"
    using renderGroup_sample [of 10] by (simp add: renderGroup_def)
  then show ?thesis
    using C10_ten_children_grouped [of "sample_frame 10" sample_env snippet_settings 0]
    by (simp add: sample_frame_def)
qed

section \<open>Claims on the walker and the entry point\<close>

lemma swiftuiText_sample:
  "swiftuiText sample_env S sample_text k = ''\<newline>Text('' @ [CHR 0x22] @ ''Hi'' @ [CHR 0x22] @ '')''"
  by (simp add: swiftuiText_def sample_text_def rect_props_def sample_env_def)

lemma swiftuiGroup_flat: "swiftuiGroup E S sample_flat_group k = ''\<newline>ZStack {\<newline>}''"
  by (simp add: swiftuiGroup.simps swiftuiContainer_def widgetGeneratorWithLimits.simps
      swiftuiWidgetGenerator.simps sample_flat_group_def rect_props_def)

text \<open>
  C5. The walker appends the separator after every visible node but the last, whatever
  the dispatch on the node's kind appended. A visible node of a kind without renderer
  (a vector here) therefore still brings its separator: behind a text node it leaves the
  fragment with a trailing newline, in front of one with a leading newline.
\<close>

theorem C5_unrendered_kind_keeps_separator:
  "swiftuiWidgetGenerator E S [sample_text, sample_vector] k
     = swiftuiText E S sample_text k @ ''\<newline>''
   \<and> swiftuiWidgetGenerator E S [sample_vector, sample_text] k
     = ''\<newline>'' @ swiftuiText E S sample_text k
   \<and> swiftuiWidgetGenerator E S [sample_text] k = swiftuiText E S sample_text k
   \<and> swiftuiWidgetGenerator sample_env S [sample_text, sample_vector] k
     = ''\<newline>Text('' @ [CHR 0x22] @ ''Hi'' @ [CHR 0x22] @ '')\<newline>''"
proof -
  have t: "renderUnit E S k sample_text = swiftuiText E S sample_text k" for E
    by (simp add: renderUnit_def sample_text_def rect_props_def)
  have v: "renderUnit E S k sample_vector = ''''" for E
    by (simp add: renderUnit_def sample_vector_def rect_props_def)
  have vis: "visible (props sample_text)" "visible (props sample_vector)"
    by (simp_all add: sample_text_def sample_vector_def rect_props_def)
  show ?thesis
    by (simp add: swiftuiWidgetGenerator_join vis t v swiftuiText_sample)
qed

text \<open>
  C6. In snippet mode \<^verbatim>\<open>swiftuiMain\<close> returns the walker's fragment as it is: the
  \<^verbatim>\<open>switch\<close> returns before the code that removes the leading newline. A group of width
  0 renders as its bare stack, which starts with a newline, and that newline is still
  there in the result; so is the one in front of a text node.
\<close>

theorem C6_snippet_keeps_leading_newline:
  "swiftuiMain E [sample_flat_group] \<lparr>swiftUIGenerationMode = Snippet, optimizeLayout = opt\<rparr>
     = Inr ''\<newline>ZStack {\<newline>}''
   \<and> swiftuiMain sample_env [sample_text] snippet_settings
     = Inr (''\<newline>Text('' @ [CHR 0x22] @ ''Hi'' @ [CHR 0x22] @ '')'')
   \<and> swiftuiMain E nodes \<lparr>swiftUIGenerationMode = Snippet, optimizeLayout = opt\<rparr>
     = Inr (swiftuiWidgetGenerator E \<lparr>swiftUIGenerationMode = Snippet, optimizeLayout = opt\<rparr>
              nodes 0)"
proof -
  have g: "renderUnit E S k sample_flat_group = ''\<newline>ZStack {\<newline>}''" for S k
    by (simp add: renderUnit_def swiftuiGroup_flat) (simp add: sample_flat_group_def rect_props_def)
  have t: "renderUnit sample_env S k sample_text
           = ''\<newline>Text('' @ [CHR 0x22] @ ''Hi'' @ [CHR 0x22] @ '')''" for S k
    by (simp add: renderUnit_def swiftuiText_sample) (simp add: sample_text_def rect_props_def)
  have vis: "visible (props sample_flat_group)" "visible (props sample_text)"
    by (simp_all add: sample_flat_group_def sample_text_def rect_props_def)
  show ?thesis
    by (simp add: swiftuiMain_def snippet_settings_def swiftuiWidgetGenerator_join vis g t)
qed

lemma swiftuiMain_unrecognized_strips:
  "swiftuiMain E nodes \<lparr>swiftUIGenerationMode = Unrecognized, optimizeLayout = opt\<rparr>
   = Inr (let result = swiftuiWidgetGenerator E
                         \<lparr>swiftUIGenerationMode = Unrecognized, optimizeLayout = opt\<rparr> nodes 0
          in case result of
               [] \<Rightarrow> []
             | c # rest \<Rightarrow> if c = CHR ''\<newline>'' then rest else result)"
  by (simp add: swiftuiMain_def startsWith_def slice_def Let_def split: list.splits)

text \<open>
  C8, the claim as it stands fails: a group of width 0 is not suppressed, the walker
  still emits its stack.
\<close>

theorem C8_flat_group_still_rendered:
  "width (props sample_flat_group) \<le> 0
   \<and> (\<forall>E S k. swiftuiWidgetGenerator E S [sample_flat_group] k = ''\<newline>ZStack {\<newline>}'')
   \<and> (\<forall>E S k. swiftuiContainer E S sample_flat_group k ''\<newline>ZStack {\<newline>}''
        = ''\<newline>ZStack {\<newline>}'')"
proof -
  have g: "renderUnit E S k sample_flat_group = ''\<newline>ZStack {\<newline>}''" for E S k
    by (simp add: renderUnit_def swiftuiGroup_flat) (simp add: sample_flat_group_def rect_props_def)
  have vis: "visible (props sample_flat_group)"
    by (simp add: sample_flat_group_def rect_props_def)
  show ?thesis
    by (simp add: swiftuiWidgetGenerator_join vis g)
       (simp add: swiftuiContainer_def sample_flat_group_def rect_props_def)
qed

text \<open>
  C8, amended. For a node whose width or height is at most 0, \<^verbatim>\<open>swiftuiContainer\<close> adds
  nothing of its own (no shape, no modifier, no indentation): it returns the stack it
  was given when the node has the fields \<^verbatim>\<open>layoutAlign\<close> and \<^verbatim>\<open>opacity\<close>, and the empty
  string when it lacks one. So the unit rendered for such a rectangle or ellipse is the
  empty string, and so is the fragment of the walker for that node alone. Such a group
  or frame that has both fields is not suppressed: a group renders as exactly
  \<^verbatim>\<open>ZStack { ... }\<close> around what \<^verbatim>\<open>widgetGeneratorWithLimits\<close> makes of its children, a
  frame as exactly the directional stack of that, and this is the fragment of the walker
  for the node alone when it is visible.
\<close>

theorem C8_nonpositive_size_returns_stack:
  assumes "width (props node) \<le> 0 \<or> height (props node) \<le> 0"
  shows "swiftuiContainer E S node indentLevel stack =
           (if has_layoutAlign (props node) \<and> has_opacity (props node) then stack else '''')
         \<and> swiftuiContainer E S node indentLevel '''' = ''''
         \<and> (ntype (props node) = RECTANGLE \<or> ntype (props node) = ELLIPSE \<longrightarrow>
              renderUnit E S indentLevel node = ''''
              \<and> swiftuiWidgetGenerator E S [node] indentLevel = '''')
         \<and> swiftuiGroup E S node indentLevel =
             (if has_layoutAlign (props node) \<and> has_opacity (props node)
              then ''\<newline>ZStack {'' @ widgetGeneratorWithLimits E S node indentLevel @ ''\<newline>}''
              else '''')
         \<and> swiftuiFrame E S node indentLevel =
             (if has_layoutAlign (props node) \<and> has_opacity (props node)
              then createDirectionalStack E
                     (widgetGeneratorWithLimits E S node
                        (if length (children node) > 1 then indentLevel + 1 else indentLevel))
                     (if optimizeLayout S \<and> inferredAutoLayout (props node) \<noteq> None
                      then the (inferredAutoLayout (props node))
                      else ownLayout (props node))
              else '''')
         \<and> (visible (props node) \<and> ntype (props node) = GROUP
              \<and> has_layoutAlign (props node) \<and> has_opacity (props node) \<longrightarrow>
              swiftuiWidgetGenerator E S [node] indentLevel =
                ''\<newline>ZStack {'' @ widgetGeneratorWithLimits E S node indentLevel @ ''\<newline>}'')
         \<and> (visible (props node) \<and> ntype (props node) = FRAME
              \<and> has_layoutAlign (props node) \<and> has_opacity (props node) \<longrightarrow>
              swiftuiWidgetGenerator E S [node] indentLevel =
                createDirectionalStack E
                  (widgetGeneratorWithLimits E S node
                     (if length (children node) > 1 then indentLevel + 1 else indentLevel))
                  (if optimizeLayout S \<and> inferredAutoLayout (props node) \<noteq> None
                   then the (inferredAutoLayout (props node))
                   else ownLayout (props node)))"
proof -
  have c: "swiftuiContainer E S node indentLevel st =
           (if has_layoutAlign (props node) \<and> has_opacity (props node) then st else '''')" for st
    using assms by (auto simp: swiftuiContainer_def)
  have g: "swiftuiGroup E S node indentLevel =
             (if has_layoutAlign (props node) \<and> has_opacity (props node)
              then ''\<newline>ZStack {'' @ widgetGeneratorWithLimits E S node indentLevel @ ''\<newline>}''
              else '''')"
    by (simp only: swiftuiGroup.simps c)
  have f: "swiftuiFrame E S node indentLevel =
             (if has_layoutAlign (props node) \<and> has_opacity (props node)
              then createDirectionalStack E
                     (widgetGeneratorWithLimits E S node
                        (if length (children node) > 1 then indentLevel + 1 else indentLevel))
                     (if optimizeLayout S \<and> inferredAutoLayout (props node) \<noteq> None
                      then the (inferredAutoLayout (props node))
                      else ownLayout (props node))
              else '''')"
    by (simp only: swiftuiFrame.simps c)
  have r: "renderUnit E S indentLevel node = ''''"
    if "ntype (props node) = RECTANGLE \<or> ntype (props node) = ELLIPSE"
    using that c [of "''''"] by (auto simp: renderUnit_def)
  have w: "swiftuiWidgetGenerator E S [node] indentLevel =
           (if visible (props node) then renderUnit E S indentLevel node else '''')"
    by (simp add: swiftuiWidgetGenerator_join)
  have ug: "renderUnit E S indentLevel node = swiftuiGroup E S node indentLevel"
    if "ntype (props node) = GROUP"
    using that by (simp add: renderUnit_def)
  have uf: "renderUnit E S indentLevel node = swiftuiFrame E S node indentLevel"
    if "ntype (props node) = FRAME"
    using that by (simp add: renderUnit_def)
  show ?thesis
  proof (intro conjI impI)
    show "swiftuiContainer E S node indentLevel stack =
           (if has_layoutAlign (props node) \<and> has_opacity (props node) then stack else '''')"
      by (rule c)
    show "swiftuiContainer E S node indentLevel '''' = ''''"
      using c [of "''''"] by simp
    show "swiftuiGroup E S node indentLevel =
             (if has_layoutAlign (props node) \<and> has_opacity (props node)
              then ''\<newline>ZStack {'' @ widgetGeneratorWithLimits E S node indentLevel @ ''\<newline>}''
              else '''')"
      by (rule g)
    show "swiftuiFrame E S node indentLevel =
             (if has_layoutAlign (props node) \<and> has_opacity (props node)
              then createDirectionalStack E
                     (widgetGeneratorWithLimits E S node
                        (if length (children node) > 1 then indentLevel + 1 else indentLevel))
                     (if optimizeLayout S \<and> inferredAutoLayout (props node) \<noteq> None
                      then the (inferredAutoLayout (props node))
                      else ownLayout (props node))
              else '''')"
      by (rule f)
  next
    assume "ntype (props node) = RECTANGLE \<or> ntype (props node) = ELLIPSE"
    then show "renderUnit E S indentLevel node = ''''" by (rule r)
  next
    assume "ntype (props node) = RECTANGLE \<or> ntype (props node) = ELLIPSE"
    then show "swiftuiWidgetGenerator E S [node] indentLevel = ''''"
      using r w by simp
  next
    assume "visible (props node) \<and> ntype (props node) = GROUP
              \<and> has_layoutAlign (props node) \<and> has_opacity (props node)"
    then show "swiftuiWidgetGenerator E S [node] indentLevel =
                ''\<newline>ZStack {'' @ widgetGeneratorWithLimits E S node indentLevel @ ''\<newline>}''"
      using w ug g by simp
  next
    assume "visible (props node) \<and> ntype (props node) = FRAME
              \<and> has_layoutAlign (props node) \<and> has_opacity (props node)"
    then show "swiftuiWidgetGenerator E S [node] indentLevel =
                createDirectionalStack E
                  (widgetGeneratorWithLimits E S node
                     (if length (children node) > 1 then indentLevel + 1 else indentLevel))
                  (if optimizeLayout S \<and> inferredAutoLayout (props node) \<noteq> None
                   then the (inferredAutoLayout (props node))
                   else ownLayout (props node))"
      using w uf f by simp
  qed
qed

theorem C8_nonpositive_size_returns_stack_witness:
  "(width (props sample_flat_group) \<le> 0 \<or> height (props sample_flat_group) \<le> 0)
   \<and> swiftuiContainer sample_env snippet_settings sample_flat_group 0 ''\<newline>ZStack {\<newline>}''
     = ''\<newline>ZStack {\<newline>}''
   \<and> swiftuiContainer sample_env snippet_settings sample_flat_group 0 '''' = ''''
   \<and> (width (props sample_flat_frame) \<le> 0 \<or> height (props sample_flat_frame) \<le> 0)
   \<and> swiftuiWidgetGenerator sample_env snippet_settings [sample_flat_frame] 0
     = ''ZStack() {\<newline>Rectangle()\<newline>Rectangle()\<newline>}''
   \<and> (width (props sample_flat_rect) \<le> 0 \<or> height (props sample_flat_rect) \<le> 0)
   \<and> swiftuiWidgetGenerator sample_env snippet_settings [sample_flat_rect] 0 = ''''"
proof -
  have p: "width (props sample_flat_group) \<le> 0 \<or> height (props sample_flat_group) \<le> 0"
    "width (props sample_flat_frame) \<le> 0 \<or> height (props sample_flat_frame) \<le> 0"
    "width (props sample_flat_rect) \<le> 0 \<or> height (props sample_flat_rect) \<le> 0"
    by (simp_all add: sample_flat_group_def sample_flat_frame_def sample_flat_rect_def
        rect_props_def)
  have r: "renderUnit sample_env snippet_settings k sample_rect = ''Rectangle()''" for k
    by (simp add: renderUnit_def swiftuiContainer_def sample_rect_def rect_props_def
        sample_env_def)
  have v: "visible (props sample_rect)" by (simp add: sample_rect_def rect_props_def)
  have ch: "widgetGeneratorWithLimits sample_env snippet_settings sample_flat_frame (Suc 0)
            = ''Rectangle()\<newline>Rectangle()''"
    by (simp add: widgetGeneratorWithLimits.simps sample_flat_frame_def
        swiftuiWidgetGenerator_join v r)
  have st: "createDirectionalStack sample_env ''Rectangle()\<newline>Rectangle()''
              \<lparr>layoutMode = NONE, counterAxisAlignItems = Align_MIN, itemSpacing = 0\<rparr>
            = ''ZStack() {\<newline>Rectangle()\<newline>Rectangle()\<newline>}''"
    by (simp add: createDirectionalStack_def generateSwiftViewCode_def sample_env_def)
  have a: "swiftuiContainer sample_env snippet_settings sample_flat_group 0 ''\<newline>ZStack {\<newline>}''
             = ''\<newline>ZStack {\<newline>}''
           \<and> swiftuiContainer sample_env snippet_settings sample_flat_group 0 '''' = ''''"
    using C8_nonpositive_size_returns_stack [OF p(1), of sample_env snippet_settings 0
        "''\<newline>ZStack {\<newline>}''"]
    by (simp add: sample_flat_group_def rect_props_def)
  have b: "swiftuiWidgetGenerator sample_env snippet_settings [sample_flat_frame] 0
     = ''ZStack() {\<newline>Rectangle()\<newline>Rectangle()\<newline>}''"
    using C8_nonpositive_size_returns_stack [OF p(2), of sample_env snippet_settings 0 "''''"]
      ch st
    by (simp add: sample_flat_frame_def rect_props_def snippet_settings_def)
  have c: "swiftuiWidgetGenerator sample_env snippet_settings [sample_flat_rect] 0 = ''''"
    using C8_nonpositive_size_returns_stack [OF p(3), of sample_env snippet_settings 0 "''''"]
    by (simp add: sample_flat_rect_def rect_props_def)
  show ?thesis using p a b c by simp
qed

text \<open>
  C9, the claim as it stands fails: a root sequence that is not empty, here one hidden
  rectangle, yields empty output in snippet mode.
\<close>

theorem C9_hidden_root_gives_empty_output:
  "[sample_hidden] \<noteq> []
   \<and> (\<forall>E. swiftuiMain E [sample_hidden] snippet_settings = Inr '''')"
  by (simp add: swiftuiMain_def snippet_settings_def swiftuiWidgetGenerator_join
      sample_hidden_def rect_props_def)

lemma join_nonempty: "x \<in> set xs \<Longrightarrow> x \<noteq> [] \<Longrightarrow> join sep xs \<noteq> []"
  by (induction sep xs rule: join.induct) auto

text \<open>
  C9, amended. In snippet mode an empty root node sequence yields empty output, and it
  is not the only one: every root sequence without a visible node does. A root sequence
  with a visible node whose rendering is not empty never yields empty output. In struct
  and preview mode a result, when there is one, is never empty.
\<close>

theorem C9_empty_output:
  "(swiftUIGenerationMode S = Snippet \<longrightarrow> swiftuiMain E [] S = Inr '''')
   \<and> (swiftUIGenerationMode S = Snippet \<and> filter (\<lambda>d. visible (props d)) nodes = []
        \<longrightarrow> swiftuiMain E nodes S = Inr '''')
   \<and> (swiftUIGenerationMode S = Snippet \<and> n \<in> set nodes \<and> visible (props n)
        \<and> renderUnit E S 0 n \<noteq> ''''
        \<longrightarrow> swiftuiMain E nodes S \<noteq> Inr '''')
   \<and> (swiftUIGenerationMode S = Struct \<or> swiftUIGenerationMode S = Preview
        \<longrightarrow> swiftuiMain E nodes S \<noteq> Inr '''')"
proof (intro conjI impI)
  assume "swiftUIGenerationMode S = Snippet"
  then show "swiftuiMain E [] S = Inr ''''"
    by (simp add: swiftuiMain_def swiftuiWidgetGenerator_join)
next
  assume "swiftUIGenerationMode S = Snippet \<and> filter (\<lambda>d. visible (props d)) nodes = []"
  then show "swiftuiMain E nodes S = Inr ''''"
    by (simp add: swiftuiMain_def swiftuiWidgetGenerator_join)
next
  assume a: "swiftUIGenerationMode S = Snippet \<and> n \<in> set nodes \<and> visible (props n)
        \<and> renderUnit E S 0 n \<noteq> ''''"
  then have "renderUnit E S 0 n \<in> set (map (renderUnit E S 0)
                (filter (\<lambda>d. visible (props d)) nodes))"
    by auto
  then have "swiftuiWidgetGenerator E S nodes 0 \<noteq> ''''"
    unfolding swiftuiWidgetGenerator_join using a by (intro join_nonempty) auto
  then show "swiftuiMain E nodes S \<noteq> Inr ''''"
    using a by (simp add: swiftuiMain_def)
next
  assume "swiftUIGenerationMode S = Struct \<or> swiftUIGenerationMode S = Preview"
  then show "swiftuiMain E nodes S \<noteq> Inr ''''"
    by (auto simp: swiftuiMain_def getStructTemplate_def getPreviewTemplate_def
        split: list.splits)
qed

theorem C9_empty_output_witness:
  "swiftUIGenerationMode snippet_settings = Snippet
   \<and> swiftuiMain sample_env [] snippet_settings = Inr ''''
   \<and> filter (\<lambda>d. visible (props d)) [sample_hidden, sample_hidden] = []
   \<and> swiftuiMain sample_env [sample_hidden, sample_hidden] snippet_settings = Inr ''''
   \<and> sample_rect \<in> set [sample_hidden, sample_rect] \<and> visible (props sample_rect)
   \<and> renderUnit sample_env snippet_settings 0 sample_rect \<noteq> ''''
   \<and> swiftuiMain sample_env [sample_hidden, sample_rect] snippet_settings \<noteq> Inr ''''
   \<and> swiftuiMain sample_env [sample_rect] (snippet_settings\<lparr>swiftUIGenerationMode := Struct\<rparr>)
     \<noteq> Inr ''''"
proof -
  have r: "renderUnit sample_env snippet_settings 0 sample_rect = ''Rectangle()''"
    by (simp add: renderUnit_def swiftuiContainer_def sample_rect_def rect_props_def
        sample_env_def)
  have v: "visible (props sample_rect)" "\<not> visible (props sample_hidden)"
    by (simp_all add: sample_rect_def sample_hidden_def rect_props_def)
  have m: "swiftUIGenerationMode snippet_settings = Snippet"
    by (simp add: snippet_settings_def)
  have a: "swiftuiMain sample_env [] snippet_settings = Inr ''''"
    "swiftuiMain sample_env [sample_hidden, sample_hidden] snippet_settings = Inr ''''"
    using C9_empty_output [of snippet_settings sample_env "[sample_hidden, sample_hidden]"]
    by (simp_all add: m v)
  have b: "swiftuiMain sample_env [sample_hidden, sample_rect] snippet_settings \<noteq> Inr ''''"
    using C9_empty_output [of snippet_settings sample_env "[sample_hidden, sample_rect]"
        sample_rect]
    by (simp add: m v r)
  have c: "swiftuiMain sample_env [sample_rect]
             (snippet_settings\<lparr>swiftUIGenerationMode := Struct\<rparr>) \<noteq> Inr ''''"
    using C9_empty_output [of "snippet_settings\<lparr>swiftUIGenerationMode := Struct\<rparr>" sample_env
        "[sample_rect]"]
    by simp
  show ?thesis using a b c by (simp add: m v r)
qed

lemma swiftuiMain_empty_root_wrapped:
  "swiftUIGenerationMode S = Struct \<or> swiftUIGenerationMode S = Preview \<Longrightarrow>
   swiftuiMain E [] S = Inl TypeError"
  by (auto simp: swiftuiMain_def)


section \<open>Claim on the stack spacing\<close>

lemma Math_round_16: "(Math_round x = 16) = (31 / 2 \<le> x \<and> x < 33 / 2)"
proof -
  have "(Math_round x = 16) = (\<lfloor>x + 1 / 2\<rfloor> = 16)"
    unfolding Math_round_def by (metis of_int_eq_iff of_int_numeral)
  also have "\<dots> = (16 \<le> x + 1 / 2 \<and> x + 1 / 2 < 17)"
    by (simp add: floor_eq_iff)
  also have "\<dots> = (31 / 2 \<le> x \<and> x < 33 / 2)"
    by (auto simp: field_simps)
  finally show ?thesis .
qed

text \<open>
  C7, the claim as it stands fails: a measured spacing of 16.25 rounds to 16, so the
  constant 16 is emitted, and 16 is not 16.25.
\<close>

theorem C7_rounded_spacing_differs:
  "Math_round (65 / 4) = 16
   \<and> getSpacing \<lparr>layoutMode = HORIZONTAL, counterAxisAlignItems = Align_MIN,
                  itemSpacing = 65 / 4\<rparr> = 16
   \<and> getSpacing \<lparr>layoutMode = HORIZONTAL, counterAxisAlignItems = Align_MIN,
                  itemSpacing = 65 / 4\<rparr>
     \<noteq> itemSpacing \<lparr>layoutMode = HORIZONTAL, counterAxisAlignItems = Align_MIN,
                     itemSpacing = 65 / 4\<rparr>"
  by (simp add: getSpacing_def Math_round_16)

text \<open>
  C7, amended. The emitted spacing is the measured item spacing unless that rounds to
  16, which it does exactly from 15.5 up to but not including 16.5; then the constant 16
  is emitted. The emitted value is never further than 0.5 from the measured one, and it
  is numerically identical to it exactly when the measured spacing does not round to 16
  or is 16 itself.
\<close>

theorem C7_spacing:
  "getSpacing l = (if Math_round (itemSpacing l) = 16 then 16 else itemSpacing l)
   \<and> (Math_round (itemSpacing l) = 16) = (31 / 2 \<le> itemSpacing l \<and> itemSpacing l < 33 / 2)
   \<and> \<bar>getSpacing l - itemSpacing l\<bar> \<le> 1 / 2
   \<and> (getSpacing l = itemSpacing l) = (Math_round (itemSpacing l) \<noteq> 16 \<or> itemSpacing l = 16)"
proof -
  have a: "getSpacing l = (if Math_round (itemSpacing l) = 16 then 16 else itemSpacing l)"
    by (simp add: getSpacing_def)
  have b: "\<bar>getSpacing l - itemSpacing l\<bar> \<le> 1 / 2"
  proof (cases "Math_round (itemSpacing l) = 16")
    case True
    then have "31 / 2 \<le> itemSpacing l" "itemSpacing l < 33 / 2"
      using Math_round_16 [of "itemSpacing l"] by auto
    then have "\<bar>16 - itemSpacing l\<bar> \<le> 1 / 2" by linarith
    with True show ?thesis by (simp add: a)
  next
    case False
    then show ?thesis by (simp add: a)
  qed
  have c: "(getSpacing l = itemSpacing l) = (Math_round (itemSpacing l) \<noteq> 16 \<or> itemSpacing l = 16)"
    unfolding a by auto
  show ?thesis using a b c Math_round_16 [of "itemSpacing l"] by blast
qed

theorem C7_spacing_witness:
  "getSpacing \<lparr>layoutMode = HORIZONTAL, counterAxisAlignItems = Align_MIN, itemSpacing = 65 / 4\<rparr>
     = 16
   \<and> getSpacing \<lparr>layoutMode = VERTICAL, counterAxisAlignItems = Align_CENTER, itemSpacing = 8\<rparr>
     = 8
   \<and> getSpacing \<lparr>layoutMode = VERTICAL, counterAxisAlignItems = Align_CENTER, itemSpacing = 16\<rparr>
     = 16"
  using C7_spacing [of "\<lparr>layoutMode = HORIZONTAL, counterAxisAlignItems = Align_MIN,
                         itemSpacing = 65 / 4\<rparr>"]
    C7_spacing [of "\<lparr>layoutMode = VERTICAL, counterAxisAlignItems = Align_CENTER,
                    itemSpacing = 8\<rparr>"]
    C7_spacing [of "\<lparr>layoutMode = VERTICAL, counterAxisAlignItems = Align_CENTER,
                    itemSpacing = 16\<rparr>"]
  by simp

section \<open>Claims on the HTML builder\<close>

lemma styles_addStyles: "styles (addStyles b xs) = styles b @ filter (\<lambda>s. s \<noteq> '''') xs"
  by (simp add: addStyles_def)

text \<open>
  C2. After the corner-radius declarations, \<^verbatim>\<open>border\<close> adds nothing when the stroke is
  uniform with weight 0 (or when there is no stroke), the one shorthand \<^verbatim>\<open>border\<close>
  declaration when it is uniform with another weight, and otherwise one declaration for
  each edge of non-zero weight, in the order left, top, right, bottom. The formatter
  (not part of the sources) is taken to return a declaration that is not empty, since
  \<^verbatim>\<open>addStyles\<close> drops empty strings.
\<close>

theorem C2_border_declarations:
  assumes fmt: "\<And>property v. formatWithJSX E property (isJSX b) v \<noteq> ''''"
  shows
    "(commonStroke E node = None \<or> commonStroke E node = Some (All 0) \<longrightarrow>
        styles (border E b node) =
          styles b @ filter (\<lambda>s. s \<noteq> '''') (htmlBorderRadius E node (isJSX b)))
     \<and> (commonStroke E node = Some (All w) \<and> w \<noteq> 0 \<longrightarrow>
        styles (border E b node) =
          styles b @ filter (\<lambda>s. s \<noteq> '''') (htmlBorderRadius E node (isJSX b))
          @ [borderDeclaration E b node ''border'' w])
     \<and> (commonStroke E node = Some (Sides leftW topW rightW bottomW) \<longrightarrow>
        styles (border E b node) =
          styles b @ filter (\<lambda>s. s \<noteq> '''') (htmlBorderRadius E node (isJSX b))
          @ (if leftW \<noteq> 0 then [borderDeclaration E b node ''border-left'' leftW] else [])
          @ (if topW \<noteq> 0 then [borderDeclaration E b node ''border-top'' topW] else [])
          @ (if rightW \<noteq> 0 then [borderDeclaration E b node ''border-right'' rightW] else [])
          @ (if bottomW \<noteq> 0 then [borderDeclaration E b node ''border-bottom'' bottomW]
             else []))"
proof (intro conjI impI)
  assume "commonStroke E node = None \<or> commonStroke E node = Some (All 0)"
  then show "styles (border E b node) =
          styles b @ filter (\<lambda>s. s \<noteq> '''') (htmlBorderRadius E node (isJSX b))"
    by (auto simp: border_def styles_addStyles)
next
  assume "commonStroke E node = Some (All w) \<and> w \<noteq> 0"
  then show "styles (border E b node) =
          styles b @ filter (\<lambda>s. s \<noteq> '''') (htmlBorderRadius E node (isJSX b))
          @ [borderDeclaration E b node ''border'' w]"
    using fmt by (simp add: border_def styles_addStyles borderDeclaration_def)
next
  assume "commonStroke E node = Some (Sides leftW topW rightW bottomW)"
  then show "styles (border E b node) =
          styles b @ filter (\<lambda>s. s \<noteq> '''') (htmlBorderRadius E node (isJSX b))
          @ (if leftW \<noteq> 0 then [borderDeclaration E b node ''border-left'' leftW] else [])
          @ (if topW \<noteq> 0 then [borderDeclaration E b node ''border-top'' topW] else [])
          @ (if rightW \<noteq> 0 then [borderDeclaration E b node ''border-right'' rightW] else [])
          @ (if bottomW \<noteq> 0 then [borderDeclaration E b node ''border-bottom'' bottomW]
             else [])"
    using fmt by (simp add: border_def styles_addStyles borderDeclaration_def Let_def)
qed

theorem C2_border_declarations_witness:
  "styles (border (sample_env\<lparr>commonStroke := (\<lambda>n. Some (All 0))\<rparr>)
             (newHtmlDefaultBuilder sample_env sample_rect False False) sample_rect) = []
   \<and> styles (border (sample_env\<lparr>commonStroke := (\<lambda>n. Some (All 2))\<rparr>)
             (newHtmlDefaultBuilder sample_env sample_rect False False) sample_rect)
     = [''border: 2px red solid'']
   \<and> styles (border (sample_env\<lparr>commonStroke := (\<lambda>n. Some (Sides 1 0 2 0))\<rparr>)
             (newHtmlDefaultBuilder sample_env sample_rect False False) sample_rect)
     = [''border-left: 1px red solid'', ''border-right: 2px red solid'']"
proof -
  let ?b = "newHtmlDefaultBuilder sample_env sample_rect False False"
  have f: "formatWithJSX (sample_env\<lparr>commonStroke := c\<rparr>) property (isJSX ?b) v \<noteq> ''''"
    for c property v
    by (simp add: sample_env_def)
  have d: "borderDeclaration (sample_env\<lparr>commonStroke := c\<rparr>) ?b sample_rect property w
           = property @ '': '' @ (if w = 2 then ''2'' else if w = 1 then ''1'' else ''0'')
             @ ''px red solid''"
    for c property w
    by (simp add: borderDeclaration_def consolidateBorders_def sample_env_def sample_rect_def
        rect_props_def)
  have s: "styles ?b = []" by (simp add: newHtmlDefaultBuilder_def)
  have r: "htmlBorderRadius sample_env sample_rect j = []" for j
    by (simp add: sample_env_def)
  show ?thesis
    using C2_border_declarations [of "sample_env\<lparr>commonStroke := (\<lambda>n. Some (All 0))\<rparr>" ?b
        sample_rect 0 0 0 0 0, OF f]
      C2_border_declarations [of "sample_env\<lparr>commonStroke := (\<lambda>n. Some (All 2))\<rparr>" ?b
        sample_rect 2 0 0 0 0, OF f]
      C2_border_declarations [of "sample_env\<lparr>commonStroke := (\<lambda>n. Some (Sides 1 0 2 0))\<rparr>" ?b
        sample_rect 0 1 0 2 0, OF f]
    by (simp add: d s r)
qed

lemma split_char_prefix: "c \<notin> set p \<Longrightarrow> split_char c (p @ c # zs) = p # split_char c zs"
  by (induction p) auto

lemma trim_declaration:
  assumes "\<not> is_space a"
  shows "\<exists>zs. trim (a # p @ '': '' @ v) = a # p @ CHR '':'' # zs"
proof -
  have front: "dropWhile is_space (a # p @ '': '' @ v) = a # p @ '': '' @ v"
    using assms by simp
  have colon: "\<not> is_space CHR '':''" by (simp add: is_space_def)
  have space: "is_space CHR '' ''" by (simp add: is_space_def)
  have r: "rev (a # p @ '': '' @ v) = rev v @ CHR '' '' # CHR '':'' # rev p @ [a]"
    by simp
  show ?thesis
  proof (cases "\<forall>x \<in> set (rev v). is_space x")
    case True
    then have "dropWhile is_space (rev v @ CHR '' '' # CHR '':'' # rev p @ [a])
               = CHR '':'' # rev p @ [a]"
      using colon space by (simp add: dropWhile_append)
    then have "trim (a # p @ '': '' @ v) = a # p @ CHR '':'' # []"
      unfolding trim_def front r by simp
    then show ?thesis by blast
  next
    case False
    then have "dropWhile is_space (rev v @ CHR '' '' # CHR '':'' # rev p @ [a])
               = dropWhile is_space (rev v) @ CHR '' '' # CHR '':'' # rev p @ [a]"
      by (auto simp: dropWhile_append)
    then have "trim (a # p @ '': '' @ v)
               = a # p @ CHR '':'' # (CHR '' '' # rev (dropWhile is_space (rev v)))"
      unfolding trim_def front r by simp
    then show ?thesis by blast
  qed
qed

lemma styleProp_height: "styleProp (trim (''height: '' @ v)) = ''height''"
proof -
  obtain zs where "trim (CHR ''h'' # ''eight'' @ '': '' @ v) = CHR ''h'' # ''eight'' @ CHR '':'' # zs"
    using trim_declaration [of "CHR ''h''" "''eight''" v] by (auto simp: is_space_def)
  then have "trim (''height: '' @ v) = ''height'' @ CHR '':'' # zs" by simp
  then show ?thesis
    unfolding styleProp_def by (simp add: split_char_prefix trim_def is_space_def)
qed

lemma styleProp_width: "styleProp (trim (''width: '' @ v)) = ''width''"
proof -
  obtain zs where "trim (CHR ''w'' # ''idth'' @ '': '' @ v) = CHR ''w'' # ''idth'' @ CHR '':'' # zs"
    using trim_declaration [of "CHR ''w''" "''idth''" v] by (auto simp: is_space_def)
  then have "trim (''width: '' @ v) = ''width'' @ CHR '':'' # zs" by simp
  then show ?thesis
    unfolding styleProp_def by (simp add: split_char_prefix trim_def is_space_def)
qed

text \<open>
  C3. \<^verbatim>\<open>build\<close> serialises, for every builder, additional styles and either syntax, the
  trimmed declarations without those of property \<^verbatim>\<open>width\<close> unless the node's
  horizontal sizing is FIXED, and without those of property \<^verbatim>\<open>height\<close> unless its
  vertical sizing is FIXED: the \<^verbatim>\<open>style\<close> attribute is the kept declarations joined, in
  their order, and every declaration of another property is kept. For a node that is
  fixed horizontally and hugs vertically exactly the \<^verbatim>\<open>height\<close> declarations go: a
  declaration \<^verbatim>\<open>width: v\<close> that was accumulated is kept and a declaration
  \<^verbatim>\<open>height: h\<close> is absent, whatever \<open>h\<close> is.
\<close>

theorem C3_width_height_filter:
  "(let accumulated = styles b @ filter (\<lambda>s. s \<noteq> '''') additionalStyle;
        horizontal = layoutSizingHorizontal (props (bnode b));
        vertical = layoutSizingVertical (props (bnode b));
        kept = filter (\<lambda>s. (styleProp s = ''width'' \<longrightarrow> horizontal = FIXED)
                         \<and> (styleProp s = ''height'' \<longrightarrow> vertical = FIXED))
                 (map trim accumulated)
    in build_formattedStyle b additionalStyle =
         (if accumulated = [] then ''''
          else if isJSX b then '' style={{'' @ join '', '' kept @ ''}}''
          else '' style='' @ [CHR 0x22] @ join ''; '' kept @ [CHR 0x22])
       \<and> formattedStylesFiltered (addStyles b additionalStyle) = kept
       \<and> (horizontal \<noteq> FIXED \<longrightarrow> (\<forall>s \<in> set kept. styleProp s \<noteq> ''width''))
       \<and> (vertical \<noteq> FIXED \<longrightarrow> (\<forall>s \<in> set kept. styleProp s \<noteq> ''height''))
       \<and> filter (\<lambda>s. styleProp s \<noteq> ''width'' \<and> styleProp s \<noteq> ''height'') kept
         = filter (\<lambda>s. styleProp s \<noteq> ''width'' \<and> styleProp s \<noteq> ''height'')
             (map trim accumulated)
       \<and> (horizontal = FIXED \<and> vertical = HUG \<longrightarrow>
            kept = filter (\<lambda>s. styleProp s \<noteq> ''height'') (map trim accumulated)
            \<and> (''width: '' @ v \<in> set accumulated \<longrightarrow> trim (''width: '' @ v) \<in> set kept)
            \<and> trim (''height: '' @ h) \<notin> set kept))"
proof -
  define accumulated where "accumulated = styles b @ filter (\<lambda>s. s \<noteq> '''') additionalStyle"
  define horizontal where "horizontal = layoutSizingHorizontal (props (bnode b))"
  define vertical where "vertical = layoutSizingVertical (props (bnode b))"
  define kept where
    "kept = filter (\<lambda>s. (styleProp s = ''width'' \<longrightarrow> horizontal = FIXED)
                       \<and> (styleProp s = ''height'' \<longrightarrow> vertical = FIXED))
              (map trim accumulated)"
  have st: "styles (addStyles b additionalStyle) = accumulated"
    by (simp add: accumulated_def styles_addStyles)
  have nd: "bnode (addStyles b additionalStyle) = bnode b"
    "isJSX (addStyles b additionalStyle) = isJSX b"
    by (simp_all add: addStyles_def)
  have fs: "formattedStylesFiltered (addStyles b additionalStyle) = kept"
    unfolding formattedStylesFiltered_def kept_def st nd horizontal_def vertical_def
    by (intro filter_cong) auto
  have bd: "build_formattedStyle b additionalStyle =
         (if accumulated = [] then ''''
          else if isJSX b then '' style={{'' @ join '', '' kept @ ''}}''
          else '' style='' @ [CHR 0x22] @ join ''; '' kept @ [CHR 0x22])"
    by (simp add: build_formattedStyle_def Let_def fs st nd)
  have w: "horizontal \<noteq> FIXED \<longrightarrow> (\<forall>s \<in> set kept. styleProp s \<noteq> ''width'')"
    unfolding kept_def by auto
  have hgt: "vertical \<noteq> FIXED \<longrightarrow> (\<forall>s \<in> set kept. styleProp s \<noteq> ''height'')"
    unfolding kept_def by auto
  have others: "filter (\<lambda>s. styleProp s \<noteq> ''width'' \<and> styleProp s \<noteq> ''height'') kept
         = filter (\<lambda>s. styleProp s \<noteq> ''width'' \<and> styleProp s \<noteq> ''height'')
             (map trim accumulated)"
    unfolding kept_def filter_filter by (intro filter_cong) auto
  have fh: "horizontal = FIXED \<and> vertical = HUG \<longrightarrow>
            kept = filter (\<lambda>s. styleProp s \<noteq> ''height'') (map trim accumulated)
            \<and> (''width: '' @ v \<in> set accumulated \<longrightarrow> trim (''width: '' @ v) \<in> set kept)
            \<and> trim (''height: '' @ h) \<notin> set kept"
  proof (intro impI conjI)
    assume a: "horizontal = FIXED \<and> vertical = HUG"
    then show "kept = filter (\<lambda>s. styleProp s \<noteq> ''height'') (map trim accumulated)"
      unfolding kept_def by (intro filter_cong) auto
    show "trim (''height: '' @ h) \<notin> set kept"
      unfolding kept_def using a styleProp_height [of h] by auto
  next
    assume a: "horizontal = FIXED \<and> vertical = HUG"
      and "''width: '' @ v \<in> set accumulated"
    then show "trim (''width: '' @ v) \<in> set kept"
      unfolding kept_def using styleProp_width [of v] by auto
  qed
  have "build_formattedStyle b additionalStyle =
         (if accumulated = [] then ''''
          else if isJSX b then '' style={{'' @ join '', '' kept @ ''}}''
          else '' style='' @ [CHR 0x22] @ join ''; '' kept @ [CHR 0x22])
       \<and> formattedStylesFiltered (addStyles b additionalStyle) = kept
       \<and> (horizontal \<noteq> FIXED \<longrightarrow> (\<forall>s \<in> set kept. styleProp s \<noteq> ''width''))
       \<and> (vertical \<noteq> FIXED \<longrightarrow> (\<forall>s \<in> set kept. styleProp s \<noteq> ''height''))
       \<and> filter (\<lambda>s. styleProp s \<noteq> ''width'' \<and> styleProp s \<noteq> ''height'') kept
         = filter (\<lambda>s. styleProp s \<noteq> ''width'' \<and> styleProp s \<noteq> ''height'')
             (map trim accumulated)
       \<and> (horizontal = FIXED \<and> vertical = HUG \<longrightarrow>
            kept = filter (\<lambda>s. styleProp s \<noteq> ''height'') (map trim accumulated)
            \<and> (''width: '' @ v \<in> set accumulated \<longrightarrow> trim (''width: '' @ v) \<in> set kept)
            \<and> trim (''height: '' @ h) \<notin> set kept)"
    using bd fs w hgt others fh by blast
  then show ?thesis
    unfolding Let_def accumulated_def horizontal_def vertical_def kept_def .
qed

lemma trim_plain: "trim ''width: 100px'' = ''width: 100px''"
  "trim ''height: 50px'' = ''height: 50px''" "trim ''background: red'' = ''background: red''"
  "trim ''color: blue'' = ''color: blue''"
  by (simp_all add: trim_def is_space_def)

lemma styleProp_plain: "styleProp ''width: 100px'' = ''width''"
  "styleProp ''height: 50px'' = ''height''" "styleProp ''background: red'' = ''background''"
  "styleProp ''color: blue'' = ''color''"
  by (simp_all add: styleProp_def trim_def is_space_def)

theorem C3_width_height_filter_witness:
  "layoutSizingHorizontal (props (bnode sample_builder)) = FIXED
   \<and> layoutSizingVertical (props (bnode sample_builder)) = HUG
   \<and> styles sample_builder = [''width: 100px'', ''height: 50px'', ''background: red'']
   \<and> build_formattedStyle sample_builder []
     = '' style='' @ [CHR 0x22] @ ''width: 100px; background: red'' @ [CHR 0x22]
   \<and> build_formattedStyle sample_builder [''color: blue'', '''']
     = '' style='' @ [CHR 0x22] @ ''width: 100px; background: red; color: blue'' @ [CHR 0x22]
   \<and> build_formattedStyle (sample_builder\<lparr>isJSX := True\<rparr>) []
     = '' style={{width: 100px, background: red}}''
   \<and> build_formattedStyle (sample_builder\<lparr>styles := [CHR 0xA0 # ''height: 5px'', ''x: y'']\<rparr>) []
     = '' style='' @ [CHR 0x22] @ ''x: y'' @ [CHR 0x22]"
proof -
  have p: "layoutSizingHorizontal (props (bnode sample_builder)) = FIXED"
    "layoutSizingVertical (props (bnode sample_builder)) = HUG"
    "styles sample_builder = [''width: 100px'', ''height: 50px'', ''background: red'']"
    "\<not> isJSX sample_builder"
    by (simp_all add: sample_builder_def newHtmlDefaultBuilder_def sample_rect_def rect_props_def)
  have a: "build_formattedStyle sample_builder []
     = '' style='' @ [CHR 0x22] @ ''width: 100px; background: red'' @ [CHR 0x22]"
    using C3_width_height_filter [of sample_builder "[]"]
    by (simp add: Let_def p trim_plain styleProp_plain)
  have b: "build_formattedStyle sample_builder [''color: blue'', '''']
     = '' style='' @ [CHR 0x22] @ ''width: 100px; background: red; color: blue'' @ [CHR 0x22]"
    using C3_width_height_filter [of sample_builder "[''color: blue'', '''']"]
    by (simp add: Let_def p trim_plain styleProp_plain)
  have c: "build_formattedStyle (sample_builder\<lparr>isJSX := True\<rparr>) []
     = '' style={{width: 100px, background: red}}''"
    using C3_width_height_filter [of "sample_builder\<lparr>isJSX := True\<rparr>" "[]"]
    by (simp add: Let_def p trim_plain styleProp_plain)
  have t: "trim (CHR 0xA0 # ''height: 5px'') = ''height: 5px''" "trim ''x: y'' = ''x: y''"
    "styleProp ''x: y'' = ''x''" "styleProp ''height: 5px'' = ''height''"
    by (simp_all add: styleProp_def trim_def is_space_def)
  have d: "build_formattedStyle
             (sample_builder\<lparr>styles := [CHR 0xA0 # ''height: 5px'', ''x: y'']\<rparr>) []
     = '' style='' @ [CHR 0x22] @ ''x: y'' @ [CHR 0x22]"
    using C3_width_height_filter
            [of "sample_builder\<lparr>styles := [CHR 0xA0 # ''height: 5px'', ''x: y'']\<rparr>" "[]"]
    by (simp add: Let_def p t trim_plain styleProp_plain)
  show ?thesis using p a b c d by simp
qed

lemma segments_supported:
  assumes "\<forall>p \<in> set ps. ptype p = GRADIENT_LINEAR \<or> ptype p = GRADIENT_RADIAL
              \<or> ptype p = GRADIENT_ANGULAR \<longrightarrow> htmlGradientFromFills E (Paints [p]) \<noteq> ''''"
  shows "filter (\<lambda>v. v \<noteq> '''')
           (map (\<lambda>paint.
                   if ptype paint = SOLID
                   then (let color = htmlColorFromFills E (Paints [paint])
                         in ''linear-gradient(0deg, '' @ color @ '' 0%, '' @ color @ '' 100%)'')
                   else if ptype paint = GRADIENT_LINEAR \<or> ptype paint = GRADIENT_RADIAL
                           \<or> ptype paint = GRADIENT_ANGULAR
                   then htmlGradientFromFills E (Paints [paint])
                   else '''')
              ps)
         = map (paintSegment E) (filter supportedPaint ps)"
  using assms
proof (induction ps)
  case Nil
  then show ?case by simp
next
  case (Cons p ps)
  then show ?case
    by (auto simp: paintSegment_def supportedPaint_def Let_def)
qed

text \<open>
  C4. \<^verbatim>\<open>buildBackgroundValues\<close> returns the empty string for the mixed sentinel and the
  plain colour expression for a list of one solid paint. For two or more paints it
  returns the segments of the supported paints, in the order of the paints, joined by a
  comma and a space: a solid paint as a linear gradient with its colour at 0% and at
  100%, a linear, radial or angular gradient as rendered by the gradient formatter, and
  nothing for any other kind. The gradient formatter (not part of the sources) is taken
  to render each gradient paint of the list as a string that is not empty, since empty
  segments are dropped.
\<close>

theorem C4_background_values:
  assumes "\<forall>p \<in> set ps. ptype p = GRADIENT_LINEAR \<or> ptype p = GRADIENT_RADIAL
              \<or> ptype p = GRADIENT_ANGULAR \<longrightarrow> htmlGradientFromFills E (Paints [p]) \<noteq> ''''"
  shows "buildBackgroundValues E Mixed = ''''
     \<and> (ps = [p] \<and> ptype p = SOLID \<longrightarrow>
          buildBackgroundValues E (Paints ps) = htmlColorFromFills E (Paints [p]))
     \<and> (2 \<le> length ps \<longrightarrow>
          buildBackgroundValues E (Paints ps) =
            join '', '' (map (paintSegment E) (filter supportedPaint ps)))"
proof (intro conjI impI)
  show "buildBackgroundValues E Mixed = ''''"
    by (simp add: buildBackgroundValues_def)
next
  assume "ps = [p] \<and> ptype p = SOLID"
  then show "buildBackgroundValues E (Paints ps) = htmlColorFromFills E (Paints [p])"
    by (simp add: buildBackgroundValues_def)
next
  assume "2 \<le> length ps"
  then have "\<not> (length ps = 1 \<and> ptype (ps ! 0) = SOLID)" by simp
  then show "buildBackgroundValues E (Paints ps) =
            join '', '' (map (paintSegment E) (filter supportedPaint ps))"
    unfolding buildBackgroundValues_def using segments_supported [OF assms]
    by (simp only: PaintArray.case if_False)
qed

theorem C4_background_values_witness:
  "buildBackgroundValues sample_env Mixed = ''''
   \<and> buildBackgroundValues sample_env (Paints [sample_solid]) = ''red''
   \<and> buildBackgroundValues sample_env (Paints [sample_solid, sample_image, sample_gradient])
     = ''linear-gradient(0deg, red 0%, red 100%), linear-gradient(90deg, blue 0%, green 100%)''"
proof -
  have g: "\<forall>p \<in> set ps. ptype p = GRADIENT_LINEAR \<or> ptype p = GRADIENT_RADIAL
              \<or> ptype p = GRADIENT_ANGULAR \<longrightarrow> htmlGradientFromFills sample_env (Paints [p]) \<noteq> ''''"
    for ps
    by (simp add: sample_env_def)
  have s: "paintSegment sample_env sample_solid = ''linear-gradient(0deg, red 0%, red 100%)''"
    "paintSegment sample_env sample_gradient = ''linear-gradient(90deg, blue 0%, green 100%)''"
    by (simp_all add: paintSegment_def sample_env_def sample_solid_def sample_gradient_def)
  have k: "supportedPaint sample_solid" "\<not> supportedPaint sample_image"
    "supportedPaint sample_gradient" "ptype sample_solid = SOLID"
    by (simp_all add: supportedPaint_def sample_solid_def sample_image_def sample_gradient_def)
  have c: "htmlColorFromFills sample_env x = ''red''" for x
    by (simp add: sample_env_def)
  show ?thesis
    using C4_background_values [OF g, of "[sample_solid]" sample_solid]
      C4_background_values [OF g, of "[sample_solid, sample_image, sample_gradient]" sample_solid]
    by (simp add: s k c)
qed

end
